theory Spec2Isabelle
  imports Complex_Main "HOL-Library.Multiset"
begin

section \<open>JavaScript values used by the auditor\<close>

text \<open>
  A JavaScript string is a sequence of UTF-16 code units and \<open>.length\<close> counts them.
  A string is modelled as a \<^typ>\<open>string\<close>, one \<^typ>\<open>char\<close> per code unit, so the model
  covers texts whose code units are below 256. A value of type \<open>string | null\<close> or
  \<open>string | undefined\<close> is a \<^typ>\<open>string option\<close>. Counters are JavaScript numbers that
  only ever hold small natural numbers.
\<close>

definition truthy :: "string option \<Rightarrow> bool" where
  \<comment> \<open>\<open>x ? a : b\<close> on a string or null: null, undefined and the empty string are falsy.\<close>
  "truthy x = (case x of None \<Rightarrow> False | Some s \<Rightarrow> s \<noteq> [])"

definition or_else :: "string option \<Rightarrow> string \<Rightarrow> string" where
  \<comment> \<open>\<open>x || d\<close> on a string or undefined.\<close>
  "or_else x d = (case x of None \<Rightarrow> d | Some s \<Rightarrow> if s = [] then d else s)"

definition startsWith :: "string \<Rightarrow> string \<Rightarrow> bool" where
  "startsWith s p = (take (length p) s = p)"

primrec str_includes :: "string \<Rightarrow> string \<Rightarrow> bool" where
  "str_includes [] sub = (sub = [])"
| "str_includes (c # s) sub = (startsWith (c # s) sub \<or> str_includes s sub)"

section \<open>The checklist store (templates.ts)\<close>

record ChecklistItem =
  ci_check :: string
  ci_priority :: string
  ci_how_to_fix :: string
  ci_status :: string

record ChecklistSection =
  cs_label :: string
  cs_description :: string
  cs_items :: "string \<rightharpoonup> ChecklistItem"

text \<open>
  \<open>getAuditSections()\<close> reads a JSON file that is configuration, not code: its result is a
  parameter of the model, a map from section key to section. The empty map is the
  result when the checklist cannot be loaded.
\<close>

type_synonym AuditSections = "string \<rightharpoonup> ChecklistSection"

definition section_items :: "AuditSections \<Rightarrow> string \<Rightarrow> (string \<rightharpoonup> ChecklistItem)" where
  \<comment> \<open>\<open>sections[key]?.items || {}\<close>\<close>
  "section_items S key = (case S key of None \<Rightarrow> Map.empty | Some sec \<Rightarrow> cs_items sec)"

section \<open>Audit results (auditor.ts)\<close>

datatype Status = Done | Missing | Partial | NotApplicable

record ItemResult =
  check :: string
  priority :: string
  status :: Status
  details :: string
  how_to_fix :: string

record SectionResult =
  sr_label :: string
  sr_total :: nat
  sr_passed :: nat
  sr_failed :: nat
  sr_items :: "(string \<times> ItemResult) list"

record PriorityFix =
  pf_check_id :: string
  pf_check :: string
  pf_priority :: string
  pf_how_to_fix :: string
  pf_section :: string

record AuditResult =
  url :: string
  timestamp :: string
  total_checks :: nat
  passed :: nat
  failed :: nat
  partial :: nat
  not_applicable :: nat
  score_percentage :: int
  sections :: "(string \<times> SectionResult) list"
  priority_fixes :: "PriorityFix list"

text \<open>
  A \<open>Record<string, ItemResult>\<close> whose keys are distinct and not array indices is
  enumerated by \<open>Object.entries\<close> in insertion order: it is modelled as the association
  list of its entries in that order.
\<close>

type_synonym Checks = "(string \<times> ItemResult) list"

section \<open>The aggregation loop of auditWebsite\<close>

record Tally =
  totalChecks :: nat
  t_passed :: nat
  t_failed :: nat
  t_partial :: nat
  t_na :: nat
  priorityFixes :: "PriorityFix list"

definition tally0 :: Tally where
  "tally0 = \<lparr>totalChecks = 0, t_passed = 0, t_failed = 0, t_partial = 0, t_na = 0,
     priorityFixes = []\<rparr>"

definition count_status :: "Status \<Rightarrow> Tally \<times> nat \<times> nat \<Rightarrow> Tally \<times> nat \<times> nat" where
  \<comment> \<open>The if / else-if chain on \<open>result.status\<close>; the pair is (sectionPassed, sectionFailed).\<close>
  "count_status st = (\<lambda>(T, sp, sf).
     if st = Done then (T\<lparr>t_passed := t_passed T + 1\<rparr>, sp + 1, sf)
     else if st = Partial then (T\<lparr>t_partial := t_partial T + 1\<rparr>, sp, sf + 1)
     else if st = NotApplicable then (T\<lparr>t_na := t_na T + 1\<rparr>, sp, sf)
     else (T\<lparr>t_failed := t_failed T + 1\<rparr>, sp, sf + 1))"

definition push_fix :: "string \<Rightarrow> string \<Rightarrow> ItemResult \<Rightarrow> Tally \<Rightarrow> Tally" where
  "push_fix sectionLabel checkId result T =
     (if status result \<noteq> Done \<and> status result \<noteq> NotApplicable
      then T\<lparr>priorityFixes := priorityFixes T @
             [\<lparr>pf_check_id = checkId, pf_check = check result, pf_priority = priority result,
               pf_how_to_fix = how_to_fix result, pf_section = sectionLabel\<rparr>]\<rparr>
      else T)"

fun check_loop :: "string \<Rightarrow> Checks \<Rightarrow> Tally \<times> nat \<times> nat \<Rightarrow> Tally \<times> nat \<times> nat" where
  "check_loop sectionLabel [] acc = acc"
| "check_loop sectionLabel ((checkId, result) # rest) (T, sp, sf) =
     (case count_status (status result) (T\<lparr>totalChecks := totalChecks T + 1\<rparr>, sp, sf) of
        (T', sp', sf') \<Rightarrow>
          check_loop sectionLabel rest (push_fix sectionLabel checkId result T', sp', sf'))"

definition section_label :: "AuditSections \<Rightarrow> string \<Rightarrow> string" where
  \<comment> \<open>\<open>auditSections[sectionKey]?.label || sectionKey\<close>\<close>
  "section_label S sectionKey = or_else (map_option cs_label (S sectionKey)) sectionKey"

fun section_loop :: "AuditSections \<Rightarrow> (string \<times> Checks) list \<Rightarrow>
    Tally \<times> (string \<times> SectionResult) list \<Rightarrow> Tally \<times> (string \<times> SectionResult) list" where
  "section_loop S [] acc = acc"
| "section_loop S ((sectionKey, checkResults) # rest) (T, sectionResults) =
     (case check_loop (section_label S sectionKey) checkResults (T, 0, 0) of
        (T', sectionPassed, sectionFailed) \<Rightarrow>
          section_loop S rest
            (T', sectionResults @
               [(sectionKey, \<lparr>sr_label = section_label S sectionKey,
                    sr_total = length checkResults, sr_passed = sectionPassed,
                    sr_failed = sectionFailed, sr_items = checkResults\<rparr>)]))"

subsection \<open>The priority order and the sort\<close>

text \<open>
  \<open>priorityOrder\<close> is the object literal \<open>{ critical: 0, high: 1, medium: 2, low: 3 }\<close>.
  Reading \<open>priorityOrder[p]\<close> finds its four own keys, and also the members every object
  inherits from \<open>Object.prototype\<close>, which are functions (or, for \<open>__proto__\<close>, an object).
\<close>

datatype property_value = Number nat | Inherited | Undefined

definition prototype_keys :: "string list" where
  "prototype_keys = [''constructor'', ''hasOwnProperty'', ''isPrototypeOf'',
     ''propertyIsEnumerable'', ''toLocaleString'', ''toString'', ''valueOf'', ''__proto__'',
     ''__defineGetter__'', ''__defineSetter__'', ''__lookupGetter__'', ''__lookupSetter__'']"

definition priorityOrder :: "string \<Rightarrow> property_value" where
  "priorityOrder p =
     (if p = ''critical'' then Number 0 else if p = ''high'' then Number 1
      else if p = ''medium'' then Number 2 else if p = ''low'' then Number 3
      else if p \<in> set prototype_keys then Inherited else Undefined)"

definition sort_rank :: "string \<Rightarrow> nat option" where
  \<comment> \<open>\<open>priorityOrder[p] || 3\<close> as an operand of the subtraction: undefined and the number 0
     are falsy and give 3; an inherited member is truthy and is no number.\<close>
  "sort_rank p = (case priorityOrder p of
     Number n \<Rightarrow> Some (if n = 0 then 3 else n) | Inherited \<Rightarrow> None | Undefined \<Rightarrow> Some 3)"

definition comparator :: "PriorityFix \<Rightarrow> PriorityFix \<Rightarrow> int" where
  \<comment> \<open>What the sort makes of \<open>(priorityOrder[a.priority] || 3) - (priorityOrder[b.priority] || 3)\<close>:
     the difference, and +0 where the difference is NaN.\<close>
  "comparator a b = (case (sort_rank (pf_priority a), sort_rank (pf_priority b)) of
     (Some x, Some y) \<Rightarrow> int x - int y | _ \<Rightarrow> 0)"

definition numeric_rank :: "PriorityFix \<Rightarrow> nat" where
  "numeric_rank f = (case sort_rank (pf_priority f) of None \<Rightarrow> 0 | Some n \<Rightarrow> n)"

text \<open>
  \<open>Array.prototype.sort\<close> is stable. Where every rank is a number the comparator is the
  difference of two ranks, a consistent comparator, and the sorted array is the stable
  sort by rank: \<^const>\<open>sort_key\<close>. An entry whose rank is no number compares equal to every
  entry. If the numeric ranks beside it are all the same, every comparison is 0 and the
  stable sort leaves the array as it is. Otherwise the comparator is not consistent and
  the language leaves the order to the implementation. That order is a parameter of
  the model: the engine gives each index of the array a sort key, so that whatever it
  does, the result is a permutation of the array.
\<close>

type_synonym sort_engine = "PriorityFix list \<Rightarrow> nat \<Rightarrow> nat"

definition implementation_order :: "sort_engine \<Rightarrow> PriorityFix list \<Rightarrow> PriorityFix list" where
  "implementation_order engine fixes =
     map snd (sort_key (\<lambda>(i, f). engine fixes i) (enumerate 0 fixes))"

definition sort_fixes :: "sort_engine \<Rightarrow> PriorityFix list \<Rightarrow> PriorityFix list" where
  "sort_fixes engine fixes =
     (let ranks = map (\<lambda>f. sort_rank (pf_priority f)) fixes
      in if list_all (\<lambda>r. r \<noteq> None) ranks then sort_key numeric_rank fixes
         else if length (remdups (filter (\<lambda>r. r \<noteq> None) ranks)) \<le> 1 then fixes
         else implementation_order engine fixes)"

subsection \<open>The score\<close>

text \<open>
  \<open>Math.round((passed / applicable) * 100)\<close> is computed on IEEE 754 doubles: the quotient
  is rounded to the nearest double, so is the product, and \<open>Math.round\<close> then takes the
  nearest integer of that double, a tie going up. A double is modelled by the rational
  it denotes. \<open>to_double\<close> rounds a non-negative rational to 53 significant bits, ties to
  even; the operands here lie between \<open>1/2^53\<close> and 100, far from overflow and from the
  subnormal range.
\<close>

function nbits :: "int \<Rightarrow> int" where
  \<comment> \<open>The number of binary digits of a positive integer.\<close>
  "nbits n = (if n \<le> 0 then 0 else 1 + nbits (n div 2))"
  by pat_completeness auto
termination
  by (relation "measure nat") auto

declare nbits.simps [simp del]

definition pow2 :: "int \<Rightarrow> rat" where
  "pow2 e = (if 0 \<le> e then 2 ^ nat e else 1 / 2 ^ nat (- e))"

definition ilog2 :: "rat \<Rightarrow> int" where
  \<comment> \<open>The exponent \<open>e\<close> with \<open>2^e \<le> x < 2^(e+1)\<close>, for \<open>x > 0\<close>.\<close>
  "ilog2 x = (case quotient_of x of (n, d) \<Rightarrow>
     let e0 = nbits n - nbits d
     in if pow2 e0 \<le> x then e0 else e0 - 1)"

definition round_half_even :: "rat \<Rightarrow> int" where
  "round_half_even x = (let f = \<lfloor>x\<rfloor>; d = x - of_int f
     in if d < 1 / 2 then f else if 1 / 2 < d then f + 1 else if even f then f else f + 1)"

definition to_double :: "rat \<Rightarrow> rat" where
  "to_double x = (if x \<le> 0 then 0
     else let ulp = pow2 (ilog2 x - 52) in of_int (round_half_even (x / ulp)) * ulp)"

definition Math_round :: "rat \<Rightarrow> int" where
  "Math_round x = \<lfloor>x + 1 / 2\<rfloor>"

definition scorePercentage :: "nat \<Rightarrow> int \<Rightarrow> int" where
  \<comment> \<open>\<open>applicable > 0 ? Math.round((passed / applicable) * 100) : 0\<close>\<close>
  "scorePercentage passedCount applicable =
     (if 0 < applicable
      then Math_round (to_double (to_double (of_nat passedCount / of_int applicable) * 100))
      else 0)"

definition aggregate :: "sort_engine \<Rightarrow> AuditSections \<Rightarrow> string \<Rightarrow> string \<Rightarrow> (string \<times> Checks) list
    \<Rightarrow> AuditResult" where
  \<comment> \<open>Lines 345 to 398 of auditWebsite, from \<open>allChecks\<close> on; the timestamp is an input.\<close>
  "aggregate engine S u ts allChecks =
     (case section_loop S allChecks (tally0, []) of
        (T, sectionResults) \<Rightarrow>
          \<lparr>url = u, timestamp = ts, total_checks = totalChecks T, passed = t_passed T,
           failed = t_failed T, partial = t_partial T, not_applicable = t_na T,
           score_percentage = scorePercentage (t_passed T) (int (totalChecks T) - int (t_na T)),
           sections = sectionResults, priority_fixes = sort_fixes engine (priorityFixes T)\<rparr>)"

section \<open>Regular expressions\<close>

text \<open>
  Every regular expression of auditor.ts carries the flag \<open>i\<close> and none the flag \<open>u\<close>.
  The patterns are built from literal characters, character classes, greedy repetition
  of a class, groups, alternation and the word boundary. Matching is the backtracking
  search of the language definition: alternatives left to right, a repetition first as
  long as it can be, the leftmost start position first.
\<close>

definition dq :: char where "dq = CHR 0x22"
definition sq :: char where "sq = CHR 0x27"
definition backslash :: char where "backslash = CHR 0x5C"

definition canon :: "char \<Rightarrow> char" where
  \<comment> \<open>Canonicalize under the flag \<open>i\<close>: the upper-case letter of an ASCII letter. A code unit
     outside ASCII never canonicalizes to an ASCII one, and the patterns hold none with
     a case variant, so no other folding is observable.\<close>
  "canon c = (case map_of (zip ''abcdefghijklmnopqrstuvwxyz'' ''ABCDEFGHIJKLMNOPQRSTUVWXYZ'') c of
     None \<Rightarrow> c | Some u \<Rightarrow> u)"

definition white_space :: "char list" where
  \<comment> \<open>\<open>\s\<close> below 256: TAB, LF, VT, FF, CR, space, no-break space. Also what \<open>trim\<close> strips.\<close>
  "white_space = [CHR 0x09, CHR 0x0A, CHR 0x0B, CHR 0x0C, CHR 0x0D, CHR 0x20, CHR 0xA0]"

definition word_char :: "char \<Rightarrow> bool" where
  "word_char c = (c \<in> set ''abcdefghijklmnopqrstuvwxyzABCDEFGHIJKLMNOPQRSTUVWXYZ0123456789_'')"

datatype cset =
  Ch char                 \<comment> \<open>a literal character\<close>
  | OneOf "char list"     \<comment> \<open>\<open>[...]\<close>\<close>
  | NoneOf "char list"    \<comment> \<open>\<open>[^...]\<close>\<close>
  | Space                 \<comment> \<open>\<open>\s\<close>\<close>
  | Digit                 \<comment> \<open>\<open>\d\<close>\<close>
  | Dot                   \<comment> \<open>\<open>.\<close>\<close>
  | SpaceOr "char list"   \<comment> \<open>\<open>[\s...]\<close>\<close>

fun in_cset :: "cset \<Rightarrow> char \<Rightarrow> bool" where
  "in_cset (Ch p) c = (canon c = canon p)"
| "in_cset (OneOf ps) c = (canon c \<in> set (map canon ps))"
| "in_cset (NoneOf ps) c = (canon c \<notin> set (map canon ps))"
| "in_cset Space c = (c \<in> set white_space)"
| "in_cset Digit c = (c \<in> set ''0123456789'')"
| "in_cset Dot c = (c \<noteq> CHR 0x0A \<and> c \<noteq> CHR 0x0D)"
| "in_cset (SpaceOr ps) c = (c \<in> set white_space \<or> canon c \<in> set (map canon ps))"

datatype regex =
  Eps
  | Sym cset              \<comment> \<open>one character of the class\<close>
  | Star cset             \<comment> \<open>\<open>c*\<close>\<close>
  | Plus cset             \<comment> \<open>\<open>c+\<close>\<close>
  | Opt cset              \<comment> \<open>\<open>c?\<close>\<close>
  | Cat regex regex
  | Alt regex regex
  | Grp regex             \<comment> \<open>a capturing group\<close>
  | WordB                 \<comment> \<open>\<open>\b\<close>\<close>

primrec lit :: "string \<Rightarrow> regex" where
  "lit [] = Eps"
| "lit (c # cs) = Cat (Sym (Ch c)) (lit cs)"

primrec cat :: "regex list \<Rightarrow> regex" where
  "cat [] = Eps"
| "cat (r # rs) = Cat r (cat rs)"

text \<open>
  The matcher's state: the character before the current position (for \<open>\b\<close>), the rest
  of the input, and the texts of the groups closed so far, in the order of their opening
  parentheses (no group here contains another). The matcher is written with a
  continuation \<open>k\<close>, the rest of the pattern: a failure of \<open>k\<close> makes the repetition give
  a character back, and makes an alternation try its next alternative.
\<close>

type_synonym mstate = "char option \<times> string \<times> string list"

fun star :: "cset \<Rightarrow> (mstate \<Rightarrow> 'a option) \<Rightarrow> char option \<Rightarrow> string \<Rightarrow> string list \<Rightarrow> 'a option" where
  "star cs k p [] caps = k (p, [], caps)"
| "star cs k p (c # s) caps =
     (if in_cset cs c
      then (case star cs k (Some c) s caps of Some r \<Rightarrow> Some r | None \<Rightarrow> k (p, c # s, caps))
      else k (p, c # s, caps))"

fun rx :: "regex \<Rightarrow> (mstate \<Rightarrow> 'a option) \<Rightarrow> mstate \<Rightarrow> 'a option" where
  "rx Eps k st = k st"
| "rx (Sym cs) k (p, s, caps) =
     (case s of [] \<Rightarrow> None | c # s' \<Rightarrow> if in_cset cs c then k (Some c, s', caps) else None)"
| "rx (Star cs) k (p, s, caps) = star cs k p s caps"
| "rx (Plus cs) k (p, s, caps) =
     (case s of [] \<Rightarrow> None | c # s' \<Rightarrow> if in_cset cs c then star cs k (Some c) s' caps else None)"
| "rx (Opt cs) k (p, s, caps) =
     (case s of [] \<Rightarrow> k (p, s, caps)
      | c # s' \<Rightarrow>
          if in_cset cs c
          then (case k (Some c, s', caps) of Some r \<Rightarrow> Some r | None \<Rightarrow> k (p, s, caps))
          else k (p, s, caps))"
| "rx (Cat a b) k st = rx a (rx b k) st"
| "rx (Alt a b) k st = (case rx a k st of Some r \<Rightarrow> Some r | None \<Rightarrow> rx b k st)"
| "rx (Grp a) k (p, s, caps) =
     rx a (\<lambda>(p', s', caps'). k (p', s', caps' @ [take (length s - length s') s])) (p, s, caps)"
| "rx WordB k (p, s, caps) =
     (let w_prev = (case p of None \<Rightarrow> False | Some c \<Rightarrow> word_char c);
          w_next = (case s of [] \<Rightarrow> False | c # _ \<Rightarrow> word_char c)
      in if w_prev \<noteq> w_next then k (p, s, caps) else None)"

definition match_here :: "regex \<Rightarrow> char option \<Rightarrow> string \<Rightarrow> (string \<times> string list) option" where
  \<comment> \<open>A match that starts at the current position: the input left after it, and the groups.\<close>
  "match_here r p s = rx r (\<lambda>(p', s', caps). Some (s', caps)) (p, s, [])"

text \<open>A match is (index, matched text, groups): \<open>m.index\<close>, \<open>m[0]\<close> and \<open>m[1], m[2], ...\<close>.\<close>

type_synonym rmatch = "nat \<times> string \<times> string list"

fun exec_from :: "regex \<Rightarrow> nat \<Rightarrow> char option \<Rightarrow> string \<Rightarrow> rmatch option" where
  "exec_from r i p [] =
     (case match_here r p [] of None \<Rightarrow> None | Some (s', caps) \<Rightarrow> Some (i, [], caps))"
| "exec_from r i p (c # s) =
     (case match_here r p (c # s) of
        None \<Rightarrow> exec_from r (Suc i) (Some c) s
      | Some (s', caps) \<Rightarrow> Some (i, take (length (c # s) - length s') (c # s), caps))"

definition str_match :: "string \<Rightarrow> regex \<Rightarrow> rmatch option" where
  \<comment> \<open>\<open>s.match(r)\<close> for a regular expression without the flag \<open>g\<close>.\<close>
  "str_match s r = exec_from r 0 None s"

definition checkHtml :: "string \<Rightarrow> regex \<Rightarrow> bool" where
  \<comment> \<open>\<open>pattern.test(html)\<close>\<close>
  "checkHtml html pattern = (str_match html pattern \<noteq> None)"

fun scan :: "regex \<Rightarrow> nat \<Rightarrow> char option \<Rightarrow> string \<Rightarrow> nat" where
  "scan r skip p [] = (if skip = 0 \<and> match_here r p [] \<noteq> None then 1 else 0)"
| "scan r skip p (c # s) =
     (if 0 < skip then scan r (skip - 1) (Some c) s
      else (case match_here r p (c # s) of
              None \<Rightarrow> scan r 0 (Some c) s
            | Some (s', caps) \<Rightarrow> Suc (scan r (length s - length s') (Some c) s)))"

definition match_count :: "string \<Rightarrow> regex \<Rightarrow> nat" where
  \<comment> \<open>\<open>(s.match(r) || []).length\<close> for a regular expression with the flag \<open>g\<close>: the matches
     found one after the other, each search starting where the match before ended (one
     character further after an empty match).\<close>
  "match_count s r = scan r 0 None s"

fun getSubstitution :: "string \<Rightarrow> string \<Rightarrow> string \<Rightarrow> string \<Rightarrow> string" where
  "getSubstitution m pre post [] = []"
| "getSubstitution m pre post [c] = [c]"
| "getSubstitution m pre post (c # d # t) =
     (if c = CHR ''$'' then
        (if d = CHR ''$'' then CHR ''$'' # getSubstitution m pre post t
         else if d = CHR ''&'' then m @ getSubstitution m pre post t
         else if d = CHR ''`'' then pre @ getSubstitution m pre post t
         else if d = sq then post @ getSubstitution m pre post t
         else c # getSubstitution m pre post (d # t))
      else c # getSubstitution m pre post (d # t))"

definition str_replace :: "string \<Rightarrow> regex \<Rightarrow> string \<Rightarrow> string" where
  \<comment> \<open>\<open>s.replace(r, template)\<close> for a regular expression without \<open>g\<close> and without groups.\<close>
  "str_replace s r template =
     (case str_match s r of
        None \<Rightarrow> s
      | Some (i, m, caps) \<Rightarrow>
          take i s @ getSubstitution m (take i s) (drop (i + length m) s) template
            @ drop (i + length m) s)"

section \<open>Helpers of the auditor\<close>

definition quote :: cset where
  \<comment> \<open>\<open>["']\<close>\<close>
  "quote = OneOf [dq, sq]"

definition no_quote :: cset where
  \<comment> \<open>\<open>[^"']\<close>\<close>
  "no_quote = NoneOf [dq, sq]"

definition no_gt :: cset where
  \<comment> \<open>\<open>[^>]\<close>\<close>
  "no_gt = NoneOf ''>''"

text \<open>
  \<open>extractMeta\<close> splices \<open>name\<close> into four pattern sources without escaping it. For a
  name without a metacharacter of the pattern language the spliced text is the literal
  name, and these are the four patterns.
\<close>

definition meta_patterns :: "string \<Rightarrow> regex list" where
  "meta_patterns name =
     [cat [lit ''<meta'', Sym Space, Star no_gt, lit ''name='', Sym quote, lit name, Sym quote,
           Star no_gt, lit ''content='', Sym quote, Grp (Star no_quote), Sym quote],
      cat [lit ''<meta'', Sym Space, Star no_gt, lit ''content='', Sym quote, Grp (Star no_quote),
           Sym quote, Star no_gt, lit ''name='', Sym quote, lit name, Sym quote],
      cat [lit ''<meta'', Sym Space, Star no_gt, lit ''property='', Sym quote, lit name, Sym quote,
           Star no_gt, lit ''content='', Sym quote, Grp (Star no_quote), Sym quote],
      cat [lit ''<meta'', Sym Space, Star no_gt, lit ''content='', Sym quote, Grp (Star no_quote),
           Sym quote, Star no_gt, lit ''property='', Sym quote, lit name, Sym quote]]"

fun first_group :: "string \<Rightarrow> regex list \<Rightarrow> string option" where
  \<comment> \<open>The loop \<open>for (const p of patterns) { const m = html.match(p); if (m) return m[1]; }\<close>\<close>
  "first_group html [] = None"
| "first_group html (p # ps) =
     (case str_match html p of
        None \<Rightarrow> first_group html ps
      | Some (i, m, caps) \<Rightarrow> (case caps of [] \<Rightarrow> None | g # _ \<Rightarrow> Some g))"

definition extractMeta :: "string \<Rightarrow> string \<Rightarrow> string option" where
  "extractMeta html name = first_group html (meta_patterns name)"

function show_nat :: "nat \<Rightarrow> string" where
  \<comment> \<open>A count spliced into a template literal: its decimal digits.\<close>
  "show_nat n = (if n < 10 then [''0123456789'' ! n]
     else show_nat (n div 10) @ [''0123456789'' ! (n mod 10)])"
  by pat_completeness auto
termination
  by (relation "measure id") auto

declare show_nat.simps [simp del]

definition countHeadings :: "string \<Rightarrow> nat \<Rightarrow> nat" where
  \<comment> \<open>\<open>new RegExp(`<h${level}[\\s>]`, "gi")\<close>\<close>
  "countHeadings html level =
     match_count html (cat [lit ''<h'', lit (show_nat level), Sym (SpaceOr ''>'')])"

definition hasSchema :: "string \<Rightarrow> string \<Rightarrow> bool" where
  "hasSchema html type =
     (str_includes html ([dq] @ ''@type'' @ [dq]) \<and> str_includes html ([dq] @ type @ [dq]))"

definition meta_check :: "(string \<rightharpoonup> ChecklistItem) \<Rightarrow> string \<Rightarrow> string \<Rightarrow> string" where
  \<comment> \<open>\<open>items[id]?.check || label\<close>\<close>
  "meta_check items cid label = or_else (map_option ci_check (items cid)) label"

definition meta_priority :: "(string \<rightharpoonup> ChecklistItem) \<Rightarrow> string \<Rightarrow> string" where
  \<comment> \<open>\<open>items[id]?.priority || "high"\<close>\<close>
  "meta_priority items cid = or_else (map_option ci_priority (items cid)) ''high''"

definition meta_fix :: "(string \<rightharpoonup> ChecklistItem) \<Rightarrow> string \<Rightarrow> string" where
  \<comment> \<open>\<open>items[id]?.how_to_fix || ""\<close>\<close>
  "meta_fix items cid = or_else (map_option ci_how_to_fix (items cid)) []"

definition item :: "(string \<rightharpoonup> ChecklistItem) \<Rightarrow> string \<Rightarrow> string \<Rightarrow> string \<Rightarrow> Status \<Rightarrow> string
    \<Rightarrow> string \<times> ItemResult" where
  \<comment> \<open>The assignment \<open>results[id] = { check: items[id]?.check || label, priority, status,
     details, how_to_fix: items[id]?.how_to_fix || "" }\<close>, as the entry it adds.\<close>
  "item items cid label prio st det =
     (cid, \<lparr>check = meta_check items cid label, priority = prio, status = st, details = det,
           how_to_fix = meta_fix items cid\<rparr>)"

definition found :: "bool \<Rightarrow> Status" where
  \<comment> \<open>\<open>b ? "done" : "missing"\<close>\<close>
  "found b = (if b then Done else Missing)"

section \<open>The audit checks, section by section\<close>

text \<open>
  Each function assigns its checks to distinct keys of a fresh object, so its result is
  the list of the entries in the order of the assignments. \<open>S\<close> is the result of
  \<open>getAuditSections()\<close>; response headers are a map from lower-case header name to value.
\<close>

definition auditTechnicalSeo :: "AuditSections \<Rightarrow> string \<Rightarrow> (string \<rightharpoonup> string) \<Rightarrow> string
    \<Rightarrow> string option \<Rightarrow> string option \<Rightarrow> Checks" where
  "auditTechnicalSeo S html headers u robotsTxt sitemapXml =
     (let items = section_items S ''1_technical_seo'';
          isHttps = startsWith u ''https://'';
          hasCanonical = checkHtml html (cat [lit ''rel='', Sym quote, lit ''canonical'', Sym quote]);
          metaRobots = extractMeta html ''robots'';
          hasViewport = checkHtml html (cat [lit ''name='', Sym quote, lit ''viewport'', Sym quote]);
          hasCharset = checkHtml html (cat [lit ''charset='', Opt quote, lit ''UTF-8'', Opt quote]);
          hasLang = checkHtml html (cat [lit ''<html'', Star no_gt, lit ''lang='', Sym quote,
                      Sym (OneOf ''abcdefghijklmnopqrstuvwxyz'')])
      in [item items ''1_01_https'' ''HTTPS'' ''critical'' (found isHttps)
            (if isHttps then ''Site uses HTTPS'' else ''Site does not use HTTPS''),
          item items ''1_03_robots_txt'' ''robots.txt'' ''critical'' (found (truthy robotsTxt))
            (if truthy robotsTxt then ''robots.txt found'' else ''robots.txt not found''),
          item items ''1_04_sitemap_xml'' ''sitemap.xml'' ''critical'' (found (truthy sitemapXml))
            (if truthy sitemapXml then ''sitemap.xml found'' else ''sitemap.xml not found''),
          item items ''1_06_canonical_tags'' ''Canonical tag'' ''critical'' (found hasCanonical)
            (if hasCanonical then ''Canonical tag found'' else ''No canonical tag''),
          item items ''1_07_meta_robots'' ''Meta robots'' ''high'' (found (truthy metaRobots))
            (if truthy metaRobots then ''meta robots: '' @ the metaRobots else ''No meta robots tag''),
          item items ''1_13_viewport_meta'' ''Viewport meta'' ''critical'' (found hasViewport)
            (if hasViewport then ''Viewport meta tag found'' else ''No viewport meta tag''),
          item items ''1_14_charset'' ''Charset UTF-8'' ''high'' (found hasCharset)
            (if hasCharset then ''UTF-8 charset found'' else ''No UTF-8 charset''),
          item items ''1_15_lang_attribute'' ''Lang attribute'' ''medium'' (found hasLang)
            (if hasLang then ''Lang attribute found'' else ''No lang attribute on <html>'')])"

definition title_pattern :: regex where
  \<comment> \<open>\<open>/<title>([^<]*)<\/title>/i\<close>\<close>
  "title_pattern = cat [lit ''<title>'', Grp (Star (NoneOf ''<'')), lit ''</title>'']"

definition titleOf :: "string \<Rightarrow> string option" where
  \<comment> \<open>\<open>titleMatch ? titleMatch[1] : null\<close>\<close>
  "titleOf html = (case str_match html title_pattern of
     None \<Rightarrow> None | Some (i, m, caps) \<Rightarrow> (case caps of [] \<Rightarrow> None | g # _ \<Rightarrow> Some g))"

definition img_pattern :: regex where
  \<comment> \<open>\<open>/<img\s/gi\<close>\<close>
  "img_pattern = cat [lit ''<img'', Sym Space]"

definition img_alt_pattern :: regex where
  \<comment> \<open>\<open>/<img\s[^>]*alt=["'][^"']+["']/gi\<close>\<close>
  "img_alt_pattern = cat [lit ''<img'', Sym Space, Star no_gt, lit ''alt='', Sym quote,
     Plus no_quote, Sym quote]"

definition img_width_height_pattern :: regex where
  \<comment> \<open>\<open>/<img\s[^>]*width=["']\d+["'][^>]*height=["']\d+["']/gi\<close>\<close>
  "img_width_height_pattern = cat [lit ''<img'', Sym Space, Star no_gt, lit ''width='', Sym quote,
     Plus Digit, Sym quote, Star no_gt, lit ''height='', Sym quote, Plus Digit, Sym quote]"

definition img_height_width_pattern :: regex where
  \<comment> \<open>\<open>/<img\s[^>]*height=["']\d+["'][^>]*width=["']\d+["']/gi\<close>\<close>
  "img_height_width_pattern = cat [lit ''<img'', Sym Space, Star no_gt, lit ''height='', Sym quote,
     Plus Digit, Sym quote, Star no_gt, lit ''width='', Sym quote, Plus Digit, Sym quote]"

definition auditOnPageSeo :: "AuditSections \<Rightarrow> string \<Rightarrow> Checks" where
  "auditOnPageSeo S html =
     (let items = section_items S ''2_on_page_seo'';
          title = titleOf html;
          titleLen = (if truthy title then length (the title) else 0);
          desc = extractMeta html ''description'';
          descLen = (if truthy desc then length (the desc) else 0);
          h1Count = countHeadings html 1;
          h2Count = countHeadings html 2;
          h3Count = countHeadings html 3;
          imgTotal = match_count html img_pattern;
          imgWithAlt = match_count html img_alt_pattern;
          imgWithDims = match_count html img_width_height_pattern
                      + match_count html img_height_width_pattern;
          imgWithLazy = match_count html (cat [lit ''loading='', Sym quote, lit ''lazy'', Sym quote]);
          hasFavicon = (checkHtml html (cat [lit ''rel='', Sym quote,
                           Grp (Alt (lit ''icon'') (lit ''shortcut icon'')), Sym quote])
                        \<or> checkHtml html (lit ''favicon''))
      in [item items ''2_01_title_tag'' ''Title tag'' ''critical''
            (if truthy title then (if 30 \<le> titleLen \<and> titleLen \<le> 70 then Done else Partial)
             else Missing)
            (if truthy title
             then ''Title ('' @ show_nat titleLen @ '' chars): '' @ [dq] @ the title @ [dq]
             else ''No title tag found''),
          item items ''2_02_meta_description'' ''Meta description'' ''critical''
            (if truthy desc then (if 100 \<le> descLen \<and> descLen \<le> 170 then Done else Partial)
             else Missing)
            (if truthy desc then ''Meta description ('' @ show_nat descLen @ '' chars)''
             else ''No meta description''),
          item items ''2_03_h1_tag'' ''H1 tag'' ''critical''
            (if h1Count = 1 then Done else if 1 < h1Count then Partial else Missing)
            (''Found '' @ show_nat h1Count @ '' H1 tag(s)''),
          item items ''2_04_heading_hierarchy'' ''Heading hierarchy'' ''high''
            (if 1 \<le> h1Count \<and> 1 \<le> h2Count then Done else Partial)
            (''H1:'' @ show_nat h1Count @ '' H2:'' @ show_nat h2Count @ '' H3:'' @ show_nat h3Count),
          item items ''2_07_image_alt_tags'' ''Image alt tags'' ''critical''
            (if imgTotal = 0 then NotApplicable else if imgWithAlt = imgTotal then Done
             else if 0 < imgWithAlt then Partial else Missing)
            (show_nat imgWithAlt @ ''/'' @ show_nat imgTotal @ '' images have alt text''),
          item items ''2_08_image_dimensions'' ''Image dimensions'' ''high''
            (if imgTotal = 0 then NotApplicable else if imgTotal \<le> imgWithDims then Done
             else if 0 < imgWithDims then Partial else Missing)
            (show_nat imgWithDims @ ''/'' @ show_nat imgTotal @ '' images have dimensions''),
          item items ''2_11_image_lazy_loading'' ''Lazy loading'' ''high''
            (if imgTotal \<le> 1 then NotApplicable else if 0 < imgWithLazy then Done else Missing)
            (show_nat imgWithLazy @ '' images with lazy loading''),
          item items ''2_20_favicon'' ''Favicon'' ''medium'' (found hasFavicon)
            (if hasFavicon then ''Favicon found'' else ''No favicon detected'')])"

definition auditSchema :: "AuditSections \<Rightarrow> string \<Rightarrow> Checks" where
  "auditSchema S html =
     (let items = section_items S ''3_structured_data_schema'';
          checks = [(''3_01_organization_schema'', ''Organization'', ''Organization schema''),
                    (''3_02_local_business_schema'', ''LocalBusiness'', ''LocalBusiness schema''),
                    (''3_03_breadcrumb_schema'', ''BreadcrumbList'', ''BreadcrumbList schema''),
                    (''3_04_faq_schema'', ''FAQPage'', ''FAQPage schema''),
                    (''3_05_article_schema'', ''Article'', ''Article schema''),
                    (''3_10_speakable_schema'', ''SpeakableSpecification'', ''Speakable schema'')]
      in map (\<lambda>(cid, schemaType, label).
            item items cid label (meta_priority items cid) (found (hasSchema html schemaType))
              (if hasSchema html schemaType then schemaType @ '' schema found''
               else ''No '' @ schemaType @ '' schema'')) checks)"

definition auditOgTags :: "AuditSections \<Rightarrow> string \<Rightarrow> Checks" where
  "auditOgTags S html =
     (let items = section_items S ''4_open_graph_social'';
          checks = [(''4_01_og_type'', ''og:type'', ''og:type''),
                    (''4_02_og_title'', ''og:title'', ''og:title''),
                    (''4_03_og_description'', ''og:description'', ''og:description''),
                    (''4_04_og_image'', ''og:image'', ''og:image''),
                    (''4_05_og_url'', ''og:url'', ''og:url''),
                    (''4_08_twitter_card'', ''twitter:card'', ''Twitter card'')]
      in map (\<lambda>(cid, metaName, label).
            item items cid label (meta_priority items cid) (found (truthy (extractMeta html metaName)))
              (if truthy (extractMeta html metaName)
               then label @ '': '' @ take 80 (the (extractMeta html metaName))
               else ''No '' @ label @ '' tag'')) checks)"

definition auditSecurity :: "AuditSections \<Rightarrow> (string \<rightharpoonup> string) \<Rightarrow> Checks" where
  "auditSecurity S headers =
     (let items = section_items S ''8_security'';
          headerChecks = [(''8_01_hsts'', ''strict-transport-security'', ''HSTS''),
                    (''8_02_x_content_type'', ''x-content-type-options'', ''X-Content-Type-Options''),
                    (''8_03_x_frame_options'', ''x-frame-options'', ''X-Frame-Options''),
                    (''8_04_xss_protection'', ''x-xss-protection'', ''X-XSS-Protection''),
                    (''8_05_referrer_policy'', ''referrer-policy'', ''Referrer-Policy''),
                    (''8_07_csp'', ''content-security-policy'', ''CSP'')]
      in map (\<lambda>(cid, header, label).
            item items cid label (meta_priority items cid) (found (truthy (headers header)))
              (if truthy (headers header) then label @ '': '' @ take 80 (the (headers header))
               else ''No '' @ label @ '' header'')) headerChecks)"

definition auditPerformance :: "AuditSections \<Rightarrow> string \<Rightarrow> (string \<rightharpoonup> string) \<Rightarrow> Checks" where
  "auditPerformance S html headers =
     (let items = section_items S ''7_performance_core_web_vitals'';
          gzipHeader = or_else (headers ''content-encoding'') [];
          compressed = (str_includes gzipHeader ''gzip'' \<or> str_includes gzipHeader ''br'');
          hasPreload = checkHtml html (cat [lit ''rel='', Sym quote, lit ''preload'', Sym quote]);
          hasPreconnect = checkHtml html (cat [lit ''rel='', Sym quote, lit ''preconnect'', Sym quote]);
          hasDefer = (checkHtml html (cat [WordB, lit ''defer'', WordB])
                      \<or> checkHtml html (cat [WordB, lit ''async'', WordB]));
          hasFontSwap = (checkHtml html (lit ''display=swap'')
                         \<or> checkHtml html (cat [lit ''font-display:'', Star Space, lit ''swap'']))
      in [item items ''7_01_gzip_compression'' ''GZIP'' ''critical'' (found compressed)
            (if gzipHeader \<noteq> [] then ''Encoding: '' @ gzipHeader else ''No compression detected''),
          item items ''7_07_preload_lcp'' ''Preload LCP'' ''high'' (found hasPreload)
            (if hasPreload then ''Preload hints found'' else ''No preload hints''),
          item items ''7_08_preconnect'' ''Preconnect'' ''medium'' (found hasPreconnect)
            (if hasPreconnect then ''Preconnect hints found'' else ''No preconnect hints''),
          item items ''7_09_defer_js'' ''Defer JS'' ''high'' (found hasDefer)
            (if hasDefer then ''Deferred/async scripts found'' else ''No deferred scripts''),
          item items ''7_11_font_optimization'' ''Font swap'' ''medium'' (found hasFontSwap)
            (if hasFontSwap then ''font-display:swap found'' else ''No font-display:swap'')])"

definition auditUxCro :: "AuditSections \<Rightarrow> string \<Rightarrow> Checks" where
  "auditUxCro S html =
     (let items = section_items S ''11_ux_cro'';
          hasCta = checkHtml html (cat [lit ''class='', Sym quote, Star no_quote, lit ''btn'',
                     Star no_quote, Sym quote]);
          hasPhone = checkHtml html (cat [lit ''href='', Sym quote, lit ''tel:'']);
          hasWhatsapp = (checkHtml html (lit ''wa.me'') \<or> checkHtml html (lit ''whatsapp''));
          hasForm = checkHtml html (cat [lit ''<form'', Sym Space]);
          hasCookieBanner = (checkHtml html (lit ''cookie'')
                             \<and> checkHtml html (Alt (lit ''accept'') (lit ''consent'')))
      in [item items ''11_01_cta_visibility'' ''CTA visibility'' ''critical'' (found hasCta)
            (if hasCta then ''CTA buttons found'' else ''No CTA buttons detected''),
          item items ''11_04_phone_clickable'' ''Clickable phone'' ''high'' (found hasPhone)
            (if hasPhone then ''Clickable phone link found'' else ''No tel: link''),
          item items ''11_05_whatsapp_button'' ''WhatsApp button'' ''medium'' (found hasWhatsapp)
            (if hasWhatsapp then ''WhatsApp integration found'' else ''No WhatsApp button''),
          item items ''11_03_contact_form'' ''Contact form'' ''high'' (found hasForm)
            (if hasForm then ''Contact form found'' else ''No contact form''),
          item items ''11_09_cookie_consent'' ''Cookie consent'' ''medium'' (found hasCookieBanner)
            (if hasCookieBanner then ''Cookie consent found'' else ''No cookie consent banner'')])"

definition auditAccessibility :: "AuditSections \<Rightarrow> string \<Rightarrow> Checks" where
  "auditAccessibility S html =
     (let items = section_items S ''15_accessibility'';
          hasAria = checkHtml html (lit ''aria-label'');
          hasSemanticHtml = checkHtml html (cat [lit ''<'',
              Grp (Alt (lit ''header'') (Alt (lit ''nav'') (Alt (lit ''main'') (Alt (lit ''section'')
                (Alt (lit ''article'') (lit ''footer'')))))), Sym (SpaceOr ''>'')]);
          hasFormLabels = checkHtml html (cat [lit ''<label'', Sym Space])
      in [item items ''15_01_aria_labels'' ''ARIA labels'' ''high'' (found hasAria)
            (if hasAria then ''ARIA labels found'' else ''No ARIA labels detected''),
          item items ''15_06_semantic_html'' ''Semantic HTML'' ''medium'' (found hasSemanticHtml)
            (if hasSemanticHtml then ''Semantic HTML5 elements found''
             else ''No semantic HTML5 elements''),
          item items ''15_04_form_labels'' ''Form labels'' ''high''
            (if hasFormLabels then Done
             else if checkHtml html (lit ''<form'') then Missing else NotApplicable)
            (if hasFormLabels then ''Form labels found'' else ''Forms without labels'')])"

definition auditLegal :: "AuditSections \<Rightarrow> string \<Rightarrow> string \<Rightarrow> Checks" where
  "auditLegal S html u =
     (let items = section_items S ''16_legal_compliance'';
          hasPrivacyLink = checkHtml html (cat [lit ''privacy'', Opt Dot, lit ''policy'']);
          hasTermsLink = checkHtml html
            (Alt (cat [lit ''terms'', Opt Dot, Grp (Alt (lit ''of'') (lit ''&'')), Opt Dot, lit ''service''])
                 (cat [lit ''terms'', Opt Dot, lit ''conditions'']));
          hasCopyright = checkHtml html
            (Alt (lit [CHR 0xA9]) (Alt (lit ''&copy;'') (lit ''copyright'')))
      in [item items ''16_01_privacy_policy'' ''Privacy Policy'' ''critical'' (found hasPrivacyLink)
            (if hasPrivacyLink then ''Privacy policy link found'' else ''No privacy policy link''),
          item items ''16_02_terms_of_service'' ''Terms of Service'' ''high'' (found hasTermsLink)
            (if hasTermsLink then ''Terms link found'' else ''No terms link''),
          item items ''16_04_copyright_notice'' ''Copyright'' ''medium'' (found hasCopyright)
            (if hasCopyright then ''Copyright notice found'' else ''No copyright notice'')])"

section \<open>auditWebsite\<close>

text \<open>
  The network is outside the model: the page text, its response headers (keys in lower
  case) and the two optional files are the results of \<open>fetchPage\<close> and \<open>fetchOptional\<close>,
  and the timestamp is the clock's. A failed page fetch throws before any check runs.
\<close>

definition normalize_url :: "string \<Rightarrow> string" where
  \<comment> \<open>\<open>if (!url.startsWith("http")) url = "https://" + url\<close>\<close>
  "normalize_url u = (if startsWith u ''http'' then u else ''https://'' @ u)"

definition allChecks :: "AuditSections \<Rightarrow> string \<Rightarrow> string \<Rightarrow> (string \<rightharpoonup> string)
    \<Rightarrow> string option \<Rightarrow> string option \<Rightarrow> (string \<times> Checks) list" where
  "allChecks S u html headers robotsTxt sitemapXml =
     [(''1_technical_seo'', auditTechnicalSeo S html headers u robotsTxt sitemapXml),
      (''2_on_page_seo'', auditOnPageSeo S html),
      (''3_structured_data_schema'', auditSchema S html),
      (''4_open_graph_social'', auditOgTags S html),
      (''7_performance_core_web_vitals'', auditPerformance S html headers),
      (''8_security'', auditSecurity S headers),
      (''11_ux_cro'', auditUxCro S html),
      (''15_accessibility'', auditAccessibility S html),
      (''16_legal_compliance'', auditLegal S html u)]"

definition auditWebsite :: "sort_engine \<Rightarrow> AuditSections \<Rightarrow> string \<Rightarrow> string \<Rightarrow> string
    \<Rightarrow> (string \<rightharpoonup> string) \<Rightarrow> string option \<Rightarrow> string option \<Rightarrow> AuditResult" where
  "auditWebsite engine S ts u0 html headers robotsTxt sitemapXml =
     (let u = normalize_url u0
      in aggregate engine S u ts (allChecks S u html headers robotsTxt sitemapXml))"

section \<open>fixSeoIssues\<close>

record FixIssue =
  check_id :: string
  fix_instruction :: string

record FixOutcome =
  original_size :: nat
  fixed_size :: nat
  changes :: "string list"

datatype error =
  FileNotFound string        \<comment> \<open>\<open>throw new Error(`File not found: ${filePath}`)\<close>\<close>
  | RegExpSyntaxError string \<comment> \<open>\<open>new RegExp(source, "i")\<close> rejects the source\<close>

text \<open>
  The generic Open Graph route calls \<open>extractMeta\<close> with a name taken from the issue's
  text, so the name may hold metacharacters of the pattern language. Then the four
  spliced sources are other patterns than \<^const>\<open>meta_patterns\<close>, or no patterns at all.
  What the language's \<open>RegExp\<close> makes of such a source is a parameter of the model: the
  constructor maps a source to nothing when it throws a SyntaxError, and otherwise to
  the function that gives, for a text, the outcome of \<open>text.match(pattern)\<close>.
\<close>

datatype match_outcome =
  NoMatch                    \<comment> \<open>\<open>null\<close>\<close>
  | Matched "string option"  \<comment> \<open>a match and its \<open>m[1]\<close>, which is \<open>undefined\<close> when group 1 took no part\<close>

type_synonym RegExp = "string \<Rightarrow> (string \<Rightarrow> match_outcome) option"

definition syntax_characters :: "char list" where
  \<open>syntax_characters = ''^$.*+?()[]{}|'' @ [backslash]\<close>

definition plain_name :: "string \<Rightarrow> bool" where
  \<comment> \<open>ASCII, and no metacharacter: the name stands for itself in a pattern source.\<close>
  "plain_name name = list_all (\<lambda>c. (of_char c :: nat) < 128 \<and> c \<notin> set syntax_characters) name"

definition meta_sources :: "string \<Rightarrow> string list" where
  \<open>meta_sources name =
     [''<meta'' @ [backslash] @ ''s[^>]*name=["']'' @ name @ ''["'][^>]*content=["']([^"']*)["']'',
      ''<meta'' @ [backslash] @ ''s[^>]*content=["']([^"']*)["'][^>]*name=["']'' @ name @ ''["']'',
      ''<meta'' @ [backslash] @ ''s[^>]*property=["']'' @ name @ ''["'][^>]*content=["']([^"']*)["']'',
      ''<meta'' @ [backslash] @ ''s[^>]*content=["']([^"']*)["'][^>]*property=["']'' @ name @ ''["']'']\<close>

fun compile_all :: "RegExp \<Rightarrow> string list \<Rightarrow> error + (string \<Rightarrow> match_outcome) list" where
  \<comment> \<open>The array literal of the four \<open>new RegExp(...)\<close>: the first rejected source throws.\<close>
  "compile_all E [] = Inr []"
| "compile_all E (src # srcs) =
     (case E src of
        None \<Rightarrow> Inl (RegExpSyntaxError src)
      | Some p \<Rightarrow> (case compile_all E srcs of Inl e \<Rightarrow> Inl e | Inr ps \<Rightarrow> Inr (p # ps)))"

fun first_outcome :: "string \<Rightarrow> (string \<Rightarrow> match_outcome) list \<Rightarrow> string option" where
  "first_outcome html [] = None"
| "first_outcome html (p # ps) =
     (case p html of NoMatch \<Rightarrow> first_outcome html ps | Matched g \<Rightarrow> g)"

definition extractMeta_spliced :: "RegExp \<Rightarrow> string \<Rightarrow> string \<Rightarrow> error + string option" where
  \<comment> \<open>\<open>extractMeta(html, name)\<close> for any name.\<close>
  "extractMeta_spliced E html name =
     (if plain_name name then Inr (extractMeta html name)
      else (case compile_all E (meta_sources name) of
              Inl e \<Rightarrow> Inl e
            | Inr ps \<Rightarrow> Inr (first_outcome html ps)))"

definition trim :: "string \<Rightarrow> string" where
  "trim s = rev (dropWhile (\<lambda>c. c \<in> set white_space) (rev (dropWhile (\<lambda>c. c \<in> set white_space) s)))"

type_synonym fix_state = "string \<times> string list"  \<comment> \<open>\<open>content\<close> and \<open>changes\<close>\<close>

definition fix_title :: "string option \<Rightarrow> string option \<Rightarrow> FixIssue \<Rightarrow> fix_state \<Rightarrow> fix_state" where
  \<open>fix_title domain businessName issue = (\<lambda>(content, chs).
     if startsWith (check_id issue) ''2_01'' \<and> \<not> str_includes content ''<title>''
     then (let titleText = (if fix_instruction issue \<noteq> [] then fix_instruction issue
                            else or_else businessName ''Website'' @ '' | '' @ or_else domain [])
           in (str_replace content (lit ''<head>'')
                 (''<head>\<newline>    <title>'' @ titleText @ ''</title>''),
               chs @ [''Added title tag: "'' @ titleText @ ''"'']))
     else (content, chs))\<close>

definition fix_description :: "string option \<Rightarrow> FixIssue \<Rightarrow> fix_state \<Rightarrow> fix_state" where
  \<open>fix_description businessName issue = (\<lambda>(content, chs).
     if startsWith (check_id issue) ''2_02'' \<and> \<not> truthy (extractMeta content ''description'')
     then (let descText = (if fix_instruction issue \<noteq> [] then fix_instruction issue
                           else or_else businessName ''Website''
                                @ '' - Professional services. Contact us today.'')
           in (str_replace content (lit ''</title>'')
                 (''</title>\<newline>    <meta name="description" content="'' @ descText @ ''">''),
               chs @ [''Added meta description'']))
     else (content, chs))\<close>

definition fix_canonical :: "string option \<Rightarrow> FixIssue \<Rightarrow> fix_state \<Rightarrow> fix_state" where
  \<open>fix_canonical domain issue = (\<lambda>(content, chs).
     if startsWith (check_id issue) ''1_06'' \<and> \<not> str_includes content ''rel="canonical"''
        \<and> \<not> str_includes content (''rel='' @ [sq] @ ''canonical'' @ [sq])
     then (let canonical = (if truthy domain then ''https://'' @ the domain @ ''/''
                            else fix_instruction issue)
           in (str_replace content (lit ''</title>'')
                 (''</title>\<newline>    <link rel="canonical" href="'' @ canonical @ ''">''),
               chs @ [''Added canonical tag: '' @ canonical]))
     else (content, chs))\<close>

definition fix_robots :: "FixIssue \<Rightarrow> fix_state \<Rightarrow> fix_state" where
  \<open>fix_robots issue = (\<lambda>(content, chs).
     if startsWith (check_id issue) ''1_07'' \<and> \<not> truthy (extractMeta content ''robots'')
     then (str_replace content (lit ''</title>'')
             ''</title>\<newline>    <meta name="robots" content="index, follow">'',
           chs @ [''Added meta robots: index, follow''])
     else (content, chs))\<close>

definition fix_viewport :: "FixIssue \<Rightarrow> fix_state \<Rightarrow> fix_state" where
  \<open>fix_viewport issue = (\<lambda>(content, chs).
     if startsWith (check_id issue) ''1_13'' \<and> \<not> truthy (extractMeta content ''viewport'')
     then (str_replace content (lit ''<head>'')
             ''<head>\<newline>    <meta name="viewport" content="width=device-width, initial-scale=1.0">'',
           chs @ [''Added viewport meta tag''])
     else (content, chs))\<close>

definition fix_charset :: "FixIssue \<Rightarrow> fix_state \<Rightarrow> fix_state" where
  \<open>fix_charset issue = (\<lambda>(content, chs).
     if startsWith (check_id issue) ''1_14'' \<and> \<not> str_includes content ''charset''
     then (str_replace content (lit ''<head>'') ''<head>\<newline>    <meta charset="UTF-8">'',
           chs @ [''Added charset UTF-8''])
     else (content, chs))\<close>

definition fix_og :: "RegExp \<Rightarrow> FixIssue \<Rightarrow> fix_state \<Rightarrow> error + fix_state" where
  \<open>fix_og E issue = (\<lambda>(content, chs).
     if startsWith (check_id issue) ''4_'' \<and> str_includes (check_id issue) ''og_''
     then (let ogProp = takeWhile (\<lambda>c. c \<noteq> CHR '':'') (fix_instruction issue)
           in if ogProp = [] then Inr (content, chs)
              else (case extractMeta_spliced E content ogProp of
                      Inl e \<Rightarrow> Inl e
                    | Inr present \<Rightarrow>
                        if truthy present then Inr (content, chs)
                        else (let ogValue = trim (drop 1 (dropWhile (\<lambda>c. c \<noteq> CHR '':'')
                                                   (fix_instruction issue)))
                              in if ogValue = [] then Inr (content, chs)
                                 else Inr (str_replace content (lit ''</head>'')
                                             (''    <meta property="'' @ ogProp @ ''" content="''
                                                @ ogValue @ ''">\<newline></head>''),
                                           chs @ [''Added '' @ ogProp @ '' tag'']))))
     else Inr (content, chs))\<close>

definition fix_lang :: "FixIssue \<Rightarrow> fix_state \<Rightarrow> fix_state" where
  \<open>fix_lang issue = (\<lambda>(content, chs).
     if startsWith (check_id issue) ''1_15''
        \<and> \<not> checkHtml content (cat [lit ''<html'', Star no_gt, lit ''lang=''])
     then (str_replace content (lit ''<html'') ''<html lang="en"'',
           chs @ [''Added lang="en" to <html>''])
     else (content, chs))\<close>

definition fix_issue :: "RegExp \<Rightarrow> string option \<Rightarrow> string option \<Rightarrow> FixIssue \<Rightarrow> fix_state
    \<Rightarrow> error + fix_state" where
  \<comment> \<open>The body of the loop: eight \<open>if\<close> statements, one after the other.\<close>
  "fix_issue E domain businessName issue st =
     (case fix_og E issue
             (fix_charset issue (fix_viewport issue (fix_robots issue (fix_canonical domain issue
               (fix_description businessName issue (fix_title domain businessName issue st)))))) of
        Inl e \<Rightarrow> Inl e
      | Inr st' \<Rightarrow> Inr (fix_lang issue st'))"

fun fix_loop :: "RegExp \<Rightarrow> string option \<Rightarrow> string option \<Rightarrow> FixIssue list \<Rightarrow> fix_state
    \<Rightarrow> error + fix_state" where
  "fix_loop E domain businessName [] st = Inr st"
| "fix_loop E domain businessName (issue # issues) st =
     (case fix_issue E domain businessName issue st of
        Inl e \<Rightarrow> Inl e
      | Inr st' \<Rightarrow> fix_loop E domain businessName issues st')"

text \<open>
  The file system is a map from path to text. The function returns its result, or the
  error it throws, together with the file system it leaves behind.
\<close>

definition fixSeoIssues :: "RegExp \<Rightarrow> (string \<rightharpoonup> string) \<Rightarrow> string \<Rightarrow> FixIssue list \<Rightarrow> string option
    \<Rightarrow> string option \<Rightarrow> (error + FixOutcome) \<times> (string \<rightharpoonup> string)" where
  "fixSeoIssues E files filePath issues domain businessName =
     (case files filePath of
        None \<Rightarrow> (Inl (FileNotFound filePath), files)
      | Some content0 \<Rightarrow>
          (case fix_loop E domain businessName issues (content0, []) of
             Inl e \<Rightarrow> (Inl e, files)
           | Inr (content, chs) \<Rightarrow>
               (Inr \<lparr>original_size = length content0, fixed_size = length content, changes = chs\<rparr>,
                files(filePath \<mapsto> content))))"

section \<open>Notions used to state the properties\<close>

definition all_items :: "(string \<times> Checks) list \<Rightarrow> Checks" where
  \<comment> \<open>Every evaluated check, in the order the two nested loops visit them.\<close>
  "all_items sections_checks = concat (map snd sections_checks)"

definition status_count :: "Status \<Rightarrow> Checks \<Rightarrow> nat" where
  "status_count st cs = length (filter (\<lambda>(cid, r). status r = st) cs)"

definition needs_fix :: "Status \<Rightarrow> bool" where
  "needs_fix st = (st = Missing \<or> st = Partial)"

definition fixes_of :: "string \<Rightarrow> Checks \<Rightarrow> PriorityFix list" where
  \<comment> \<open>One entry for each check of a section that is missing or partial, in the section's order.\<close>
  "fixes_of sectionLabel cs =
     map (\<lambda>(cid, r). \<lparr>pf_check_id = cid, pf_check = check r, pf_priority = priority r,
                       pf_how_to_fix = how_to_fix r, pf_section = sectionLabel\<rparr>)
       (filter (\<lambda>(cid, r). needs_fix (status r)) cs)"

definition discovered_fixes :: "AuditSections \<Rightarrow> (string \<times> Checks) list \<Rightarrow> PriorityFix list" where
  \<comment> \<open>The entries in the order of discovery: section by section, check by check.\<close>
  "discovered_fixes S sections_checks =
     concat (map (\<lambda>(sectionKey, cs). fixes_of (section_label S sectionKey) cs) sections_checks)"

definition spec_rank :: "string \<Rightarrow> nat" where
  \<comment> \<open>The rank the specification gives: critical 0, high 1, medium 2, low and anything else 3.\<close>
  "spec_rank p = (if p = ''critical'' then 0 else if p = ''high'' then 1
     else if p = ''medium'' then 2 else 3)"



definition evaluated_checks :: "AuditResult \<Rightarrow> Checks" where
  \<comment> \<open>The item results an audit reports, section after section.\<close>
  "evaluated_checks R = concat (map (\<lambda>(sectionKey, sr). sr_items sr) (sections R))"

definition status_of :: "AuditResult \<Rightarrow> string \<Rightarrow> Status option" where
  \<comment> \<open>The status an audit reports for a check identifier.\<close>
  "status_of R cid = map_option status (map_of (evaluated_checks R) cid)"

definition queued :: "AuditResult \<Rightarrow> string \<Rightarrow> bool" where
  \<comment> \<open>The check has an entry in the queue of fixes.\<close>
  "queued R cid = (cid \<in> set (map pf_check_id (priority_fixes R)))"

definition img_at :: "string \<Rightarrow> bool" where
  \<comment> \<open>The text starts with \<open><img\<close>, in any letter case, and a white space character.\<close>
  "img_at s = (5 \<le> length s \<and> map canon (take 4 s) = map canon ''<img''
     \<and> s ! 4 \<in> set white_space)"

fun img_count :: "string \<Rightarrow> nat" where
  \<comment> \<open>The number of positions at which the text has \<open><img\<close> and a white space character.\<close>
  "img_count [] = 0"
| "img_count (c # s) = (if img_at (c # s) then 1 else 0) + img_count s"

definition title_element :: "string \<Rightarrow> string \<Rightarrow> string \<Rightarrow> string" where
  \<comment> \<open>A document that holds the element \<open><title>t</title>\<close> between two texts.\<close>
  "title_element pre t post = pre @ ''<title>'' @ t @ ''</title>'' @ post"

section \<open>The aggregation loop, field by field\<close>

lemma count_status_fields:
  "count_status st (T, sp, sf) = (T', sp', sf') \<Longrightarrow>
     totalChecks T' = totalChecks T \<and> priorityFixes T' = priorityFixes T
     \<and> t_passed T' = t_passed T + (if st = Done then 1 else 0)
     \<and> t_failed T' = t_failed T + (if st = Missing then 1 else 0)
     \<and> t_partial T' = t_partial T + (if st = Partial then 1 else 0)
     \<and> t_na T' = t_na T + (if st = NotApplicable then 1 else 0)"
  by (cases st) (auto simp: count_status_def)

lemma push_fix_fields:
  "totalChecks (push_fix l c r T) = totalChecks T"
  "t_passed (push_fix l c r T) = t_passed T"
  "t_failed (push_fix l c r T) = t_failed T"
  "t_partial (push_fix l c r T) = t_partial T"
  "t_na (push_fix l c r T) = t_na T"
  "priorityFixes (push_fix l c r T) = priorityFixes T @ fixes_of l [(c, r)]"
  by (cases "status r"; simp add: push_fix_def fixes_of_def needs_fix_def)+

lemma check_loop_fields:
  "check_loop l cs (T, sp, sf) = (T', sp', sf') \<Longrightarrow>
     totalChecks T' = totalChecks T + length cs
     \<and> t_passed T' = t_passed T + status_count Done cs
     \<and> t_failed T' = t_failed T + status_count Missing cs
     \<and> t_partial T' = t_partial T + status_count Partial cs
     \<and> t_na T' = t_na T + status_count NotApplicable cs
     \<and> priorityFixes T' = priorityFixes T @ fixes_of l cs"
proof (induction cs arbitrary: T sp sf)
  case Nil
  then show ?case by (simp add: status_count_def fixes_of_def)
next
  case (Cons a cs)
  obtain c r where a: "a = (c, r)" by (cases a)
  obtain T1 sp1 sf1 where cs1:
    "count_status (status r) (T\<lparr>totalChecks := totalChecks T + 1\<rparr>, sp, sf) = (T1, sp1, sf1)"
    by (metis prod_cases3)
  from Cons.prems a cs1
  have rest: "check_loop l cs (push_fix l c r T1, sp1, sf1) = (T', sp', sf')" by simp
  note f1 = count_status_fields [OF cs1]
  note f2 = Cons.IH [OF rest]
  have fx: "fixes_of l ((c, r) # cs) = fixes_of l [(c, r)] @ fixes_of l cs"
    by (simp add: fixes_of_def)
  show ?case using f1 f2 unfolding a fx
    by (simp add: push_fix_fields status_count_def)
qed

lemma section_loop_fields:
  "section_loop S scs (T, rs) = (T', rs') \<Longrightarrow>
     totalChecks T' = totalChecks T + length (all_items scs)
     \<and> t_passed T' = t_passed T + status_count Done (all_items scs)
     \<and> t_failed T' = t_failed T + status_count Missing (all_items scs)
     \<and> t_partial T' = t_partial T + status_count Partial (all_items scs)
     \<and> t_na T' = t_na T + status_count NotApplicable (all_items scs)
     \<and> priorityFixes T' = priorityFixes T @ discovered_fixes S scs"
proof (induction scs arbitrary: T rs)
  case Nil
  then show ?case by (simp add: all_items_def status_count_def discovered_fixes_def)
next
  case (Cons a scs)
  obtain k cs where a: "a = (k, cs)" by (cases a)
  obtain T1 sp1 sf1 where cl: "check_loop (section_label S k) cs (T, 0, 0) = (T1, sp1, sf1)"
    by (metis prod_cases3)
  from Cons.prems a cl obtain rs1 where rest: "section_loop S scs (T1, rs1) = (T', rs')" by simp
  note f1 = check_loop_fields [OF cl]
  note f2 = Cons.IH [OF rest]
  show ?case using f1 f2 unfolding a
    by (simp add: all_items_def status_count_def discovered_fixes_def)
qed

lemma aggregate_fields:
  "total_checks (aggregate engine S u ts scs) = length (all_items scs)"
  "passed (aggregate engine S u ts scs) = status_count Done (all_items scs)"
  "failed (aggregate engine S u ts scs) = status_count Missing (all_items scs)"
  "partial (aggregate engine S u ts scs) = status_count Partial (all_items scs)"
  "not_applicable (aggregate engine S u ts scs) = status_count NotApplicable (all_items scs)"
  "priority_fixes (aggregate engine S u ts scs) = sort_fixes engine (discovered_fixes S scs)"
  "score_percentage (aggregate engine S u ts scs) =
     scorePercentage (status_count Done (all_items scs))
       (int (length (all_items scs)) - int (status_count NotApplicable (all_items scs)))"
proof -
  obtain T rs where sl: "section_loop S scs (tally0, []) = (T, rs)" by (cases "section_loop S scs (tally0, [])")
  have f: "totalChecks T = length (all_items scs)
     \<and> t_passed T = status_count Done (all_items scs)
     \<and> t_failed T = status_count Missing (all_items scs)
     \<and> t_partial T = status_count Partial (all_items scs)
     \<and> t_na T = status_count NotApplicable (all_items scs)
     \<and> priorityFixes T = discovered_fixes S scs"
    using section_loop_fields [OF sl] by (simp add: tally0_def)
  show "total_checks (aggregate engine S u ts scs) = length (all_items scs)"
    "passed (aggregate engine S u ts scs) = status_count Done (all_items scs)"
    "failed (aggregate engine S u ts scs) = status_count Missing (all_items scs)"
    "partial (aggregate engine S u ts scs) = status_count Partial (all_items scs)"
    "not_applicable (aggregate engine S u ts scs) = status_count NotApplicable (all_items scs)"
    "priority_fixes (aggregate engine S u ts scs) = sort_fixes engine (discovered_fixes S scs)"
    "score_percentage (aggregate engine S u ts scs) =
     scorePercentage (status_count Done (all_items scs))
       (int (length (all_items scs)) - int (status_count NotApplicable (all_items scs)))"
    using f by (simp_all add: aggregate_def sl)
qed

lemma status_count_partition:
  "length cs = status_count Done cs + status_count Missing cs + status_count Partial cs
     + status_count NotApplicable cs"
proof (induction cs)
  case Nil
  then show ?case by (simp add: status_count_def)
next
  case (Cons a cs)
  obtain c r where a: "a = (c, r)" by (cases a)
  show ?case using Cons unfolding a by (cases "status r") (simp_all add: status_count_def)
qed

section \<open>The fifty checks of an audit\<close>

lemma ids_technical: "map fst (auditTechnicalSeo S html headers u robotsTxt sitemapXml) =
  [''1_01_https'', ''1_03_robots_txt'', ''1_04_sitemap_xml'', ''1_06_canonical_tags'',
   ''1_07_meta_robots'', ''1_13_viewport_meta'', ''1_14_charset'', ''1_15_lang_attribute'']"
  by (simp add: auditTechnicalSeo_def item_def Let_def)

lemma ids_on_page: "map fst (auditOnPageSeo S html) =
  [''2_01_title_tag'', ''2_02_meta_description'', ''2_03_h1_tag'', ''2_04_heading_hierarchy'',
   ''2_07_image_alt_tags'', ''2_08_image_dimensions'', ''2_11_image_lazy_loading'', ''2_20_favicon'']"
  by (simp add: auditOnPageSeo_def item_def Let_def)

lemma ids_schema: "map fst (auditSchema S html) =
  [''3_01_organization_schema'', ''3_02_local_business_schema'', ''3_03_breadcrumb_schema'',
   ''3_04_faq_schema'', ''3_05_article_schema'', ''3_10_speakable_schema'']"
  by (simp add: auditSchema_def item_def Let_def)

lemma ids_og: "map fst (auditOgTags S html) =
  [''4_01_og_type'', ''4_02_og_title'', ''4_03_og_description'', ''4_04_og_image'',
   ''4_05_og_url'', ''4_08_twitter_card'']"
  by (simp add: auditOgTags_def item_def Let_def)

lemma ids_performance: "map fst (auditPerformance S html headers) =
  [''7_01_gzip_compression'', ''7_07_preload_lcp'', ''7_08_preconnect'', ''7_09_defer_js'',
   ''7_11_font_optimization'']"
  by (simp add: auditPerformance_def item_def Let_def)

lemma ids_security: "map fst (auditSecurity S headers) =
  [''8_01_hsts'', ''8_02_x_content_type'', ''8_03_x_frame_options'', ''8_04_xss_protection'',
   ''8_05_referrer_policy'', ''8_07_csp'']"
  by (simp add: auditSecurity_def item_def Let_def)

lemma ids_ux: "map fst (auditUxCro S html) =
  [''11_01_cta_visibility'', ''11_04_phone_clickable'', ''11_05_whatsapp_button'',
   ''11_03_contact_form'', ''11_09_cookie_consent'']"
  by (simp add: auditUxCro_def item_def Let_def)

lemma ids_accessibility: "map fst (auditAccessibility S html) =
  [''15_01_aria_labels'', ''15_06_semantic_html'', ''15_04_form_labels'']"
  by (simp add: auditAccessibility_def item_def Let_def)

lemma ids_legal: "map fst (auditLegal S html u) =
  [''16_01_privacy_policy'', ''16_02_terms_of_service'', ''16_04_copyright_notice'']"
  by (simp add: auditLegal_def item_def Let_def)

lemmas ids_sections = ids_technical ids_on_page ids_schema ids_og ids_performance ids_security
  ids_ux ids_accessibility ids_legal

lemma ids_all: "map fst (all_items (allChecks S u html headers robotsTxt sitemapXml)) =
  [''1_01_https'', ''1_03_robots_txt'', ''1_04_sitemap_xml'', ''1_06_canonical_tags'',
   ''1_07_meta_robots'', ''1_13_viewport_meta'', ''1_14_charset'', ''1_15_lang_attribute'',
   ''2_01_title_tag'', ''2_02_meta_description'', ''2_03_h1_tag'', ''2_04_heading_hierarchy'',
   ''2_07_image_alt_tags'', ''2_08_image_dimensions'', ''2_11_image_lazy_loading'', ''2_20_favicon'',
   ''3_01_organization_schema'', ''3_02_local_business_schema'', ''3_03_breadcrumb_schema'',
   ''3_04_faq_schema'', ''3_05_article_schema'', ''3_10_speakable_schema'',
   ''4_01_og_type'', ''4_02_og_title'', ''4_03_og_description'', ''4_04_og_image'',
   ''4_05_og_url'', ''4_08_twitter_card'',
   ''7_01_gzip_compression'', ''7_07_preload_lcp'', ''7_08_preconnect'', ''7_09_defer_js'',
   ''7_11_font_optimization'',
   ''8_01_hsts'', ''8_02_x_content_type'', ''8_03_x_frame_options'', ''8_04_xss_protection'',
   ''8_05_referrer_policy'', ''8_07_csp'',
   ''11_01_cta_visibility'', ''11_04_phone_clickable'', ''11_05_whatsapp_button'',
   ''11_03_contact_form'', ''11_09_cookie_consent'',
   ''15_01_aria_labels'', ''15_06_semantic_html'', ''15_04_form_labels'',
   ''16_01_privacy_policy'', ''16_02_terms_of_service'', ''16_04_copyright_notice'']"
  by (simp add: all_items_def allChecks_def ids_sections)

lemma ids_distinct: "distinct (map fst (all_items (allChecks S u html headers robotsTxt sitemapXml)))"
  unfolding ids_all by simp

lemma length_all: "length (all_items (allChecks S u html headers robotsTxt sitemapXml)) = 50"
proof -
  have "length (map fst (all_items (allChecks S u html headers robotsTxt sitemapXml))) = 50"
    unfolding ids_all by simp
  then show ?thesis by simp
qed

section \<open>Counters and the queue of fixes\<close>

lemma ids_fixes_of:
  "map pf_check_id (fixes_of l cs) = map fst (filter (\<lambda>(c, r). needs_fix (status r)) cs)"
  by (induction cs) (auto simp: fixes_of_def)

lemma ids_discovered:
  "map pf_check_id (discovered_fixes S scs) =
     map fst (filter (\<lambda>(c, r). needs_fix (status r)) (all_items scs))"
  by (induction scs) (auto simp: discovered_fixes_def all_items_def ids_fixes_of)

lemma needs_fix_iff: "needs_fix st \<longleftrightarrow> st \<noteq> Done \<and> st \<noteq> NotApplicable"
  by (cases st) (simp_all add: needs_fix_def)

lemma mset_implementation_order: "mset (implementation_order engine xs) = mset xs"
proof -
  have "mset (map snd (sort_key k (enumerate 0 xs))) = mset xs" for k :: "nat \<times> PriorityFix \<Rightarrow> nat"
  proof -
    have "mset (map snd (sort_key k (enumerate 0 xs))) = image_mset snd (mset (enumerate 0 xs))"
      by simp
    also have "\<dots> = mset (map snd (enumerate 0 xs))" by (simp only: mset_map)
    also have "\<dots> = mset xs" by (simp only: map_snd_enumerate)
    finally show ?thesis .
  qed
  then show ?thesis by (simp add: implementation_order_def)
qed

lemma mset_sort_fixes: "mset (sort_fixes engine xs) = mset xs"
  by (simp add: sort_fixes_def Let_def mset_implementation_order)

lemma set_sort_fixes: "set (sort_fixes engine xs) = set xs"
  by (metis mset_sort_fixes set_mset_mset)

lemma length_discovered:
  "length (discovered_fixes S scs) =
     status_count Missing (all_items scs) + status_count Partial (all_items scs)"
proof -
  have "length (filter (\<lambda>(c, r). needs_fix (status r)) cs) =
      status_count Missing cs + status_count Partial cs" for cs :: Checks
  proof (induction cs)
    case Nil
    then show ?case by (simp add: status_count_def)
  next
    case (Cons a cs)
    obtain c r where a: "a = (c, r)" by (cases a)
    show ?case using Cons unfolding a
      by (cases "status r") (simp_all add: status_count_def needs_fix_def)
  qed
  from this [of "all_items scs"] show ?thesis
    by (metis ids_discovered length_map)
qed

lemma member_filter_distinct:
  assumes "distinct (map fst cs)" and "(c, r) \<in> set cs"
  shows "c \<in> set (map fst (filter P cs)) \<longleftrightarrow> P (c, r)"
proof
  assume "c \<in> set (map fst (filter P cs))"
  then obtain r' where r': "(c, r') \<in> set cs" "P (c, r')" by auto
  with assms have "r' = r" by (meson eq_key_imp_eq_value)
  with r' show "P (c, r)" by simp
next
  assume "P (c, r)"
  with assms(2) show "c \<in> set (map fst (filter P cs))" by force
qed

lemma auditWebsite_aggregate:
  "auditWebsite engine S ts u html headers robotsTxt sitemapXml =
     aggregate engine S (normalize_url u) ts (allChecks S (normalize_url u) html headers robotsTxt sitemapXml)"
  by (simp add: auditWebsite_def Let_def)

text \<open>
  C3. In every result of auditWebsite the total number of checks is the sum of the four
  counters, and each counter is the number of evaluated checks with its status: passed
  counts the done ones, failed the missing ones, partial the partial ones and
  not_applicable the inapplicable ones.
\<close>

theorem audit_total_is_sum_of_status_counters:
  "total_checks (auditWebsite engine S ts u html headers robotsTxt sitemapXml)
     = passed (auditWebsite engine S ts u html headers robotsTxt sitemapXml)
       + failed (auditWebsite engine S ts u html headers robotsTxt sitemapXml)
       + partial (auditWebsite engine S ts u html headers robotsTxt sitemapXml)
       + not_applicable (auditWebsite engine S ts u html headers robotsTxt sitemapXml)
   \<and> total_checks (auditWebsite engine S ts u html headers robotsTxt sitemapXml)
     = length (all_items (allChecks S (normalize_url u) html headers robotsTxt sitemapXml))
   \<and> passed (auditWebsite engine S ts u html headers robotsTxt sitemapXml)
     = status_count Done (all_items (allChecks S (normalize_url u) html headers robotsTxt sitemapXml))
   \<and> failed (auditWebsite engine S ts u html headers robotsTxt sitemapXml)
     = status_count Missing (all_items (allChecks S (normalize_url u) html headers robotsTxt sitemapXml))
   \<and> partial (auditWebsite engine S ts u html headers robotsTxt sitemapXml)
     = status_count Partial (all_items (allChecks S (normalize_url u) html headers robotsTxt sitemapXml))
   \<and> not_applicable (auditWebsite engine S ts u html headers robotsTxt sitemapXml)
     = status_count NotApplicable
         (all_items (allChecks S (normalize_url u) html headers robotsTxt sitemapXml))"
  using status_count_partition
    [of "all_items (allChecks S (normalize_url u) html headers robotsTxt sitemapXml)"]
  by (simp add: auditWebsite_aggregate aggregate_fields)

text \<open>
  C5. The queue of an audit holds one entry for each evaluated check whose status is
  neither done nor not_applicable, and nothing else: it is the stable sort of those
  entries, so a permutation of them; a check's identifier occurs in the queue exactly
  when the check is missing or partial, and no identifier occurs twice.
\<close>

theorem audit_priority_fixes_are_the_failing_checks:
  "priority_fixes (auditWebsite engine S ts u html headers robotsTxt sitemapXml)
     = sort_fixes engine (discovered_fixes S (allChecks S (normalize_url u) html headers robotsTxt sitemapXml))
   \<and> mset (priority_fixes (auditWebsite engine S ts u html headers robotsTxt sitemapXml))
     = mset (discovered_fixes S (allChecks S (normalize_url u) html headers robotsTxt sitemapXml))
   \<and> list_all (\<lambda>(cid, r).
        (cid \<in> set (map pf_check_id (priority_fixes (auditWebsite engine S ts u html headers robotsTxt sitemapXml))))
         = (status r \<noteq> Done \<and> status r \<noteq> NotApplicable))
       (all_items (allChecks S (normalize_url u) html headers robotsTxt sitemapXml))
   \<and> distinct (map pf_check_id (priority_fixes (auditWebsite engine S ts u html headers robotsTxt sitemapXml)))
   \<and> length (priority_fixes (auditWebsite engine S ts u html headers robotsTxt sitemapXml))
     = failed (auditWebsite engine S ts u html headers robotsTxt sitemapXml)
       + partial (auditWebsite engine S ts u html headers robotsTxt sitemapXml)"
proof -
  let ?scs = "allChecks S (normalize_url u) html headers robotsTxt sitemapXml"
  let ?cs = "all_items ?scs"
  let ?D = "discovered_fixes S ?scs"
  let ?R = "auditWebsite engine S ts u html headers robotsTxt sitemapXml"
  have pf: "priority_fixes ?R = sort_fixes engine ?D"
    by (simp add: auditWebsite_aggregate aggregate_fields)
  have ms: "mset (priority_fixes ?R) = mset ?D"
    by (simp add: pf mset_sort_fixes)
  have ids: "set (map pf_check_id (priority_fixes ?R))
      = set (map fst (filter (\<lambda>(c, r). needs_fix (status r)) ?cs))"
  proof -
    have "set (map pf_check_id (priority_fixes ?R)) = set (map pf_check_id ?D)"
      by (simp add: pf set_sort_fixes)
    then show ?thesis by (simp only: ids_discovered)
  qed
  have dist: "distinct (map fst ?cs)" by (rule ids_distinct)
  have iff: "list_all (\<lambda>(cid, r).
        (cid \<in> set (map pf_check_id (priority_fixes ?R))) = (status r \<noteq> Done \<and> status r \<noteq> NotApplicable)) ?cs"
    unfolding list_all_iff
  proof (rule ballI, clarify)
    fix cid r assume "(cid, r) \<in> set ?cs"
    from member_filter_distinct [OF dist this, of "\<lambda>(c, r). needs_fix (status r)"]
    show "(cid \<in> set (map pf_check_id (priority_fixes ?R))) = (status r \<noteq> Done \<and> status r \<noteq> NotApplicable)"
      unfolding ids by (simp add: needs_fix_iff)
  qed
  have d2: "distinct (map pf_check_id (priority_fixes ?R))"
  proof -
    have "distinct (map fst (filter (\<lambda>(c, r). needs_fix (status r)) ?cs))"
      using dist by (rule distinct_map_filter)
    then have "distinct (map pf_check_id ?D)" by (simp only: ids_discovered)
    moreover have "mset (map pf_check_id (priority_fixes ?R)) = mset (map pf_check_id ?D)"
      using ms by (metis mset_map)
    ultimately show ?thesis by (metis mset_eq_imp_distinct_iff)
  qed
  have len: "length (priority_fixes ?R) = failed ?R + partial ?R"
  proof -
    have "length (priority_fixes ?R) = length ?D" using ms by (metis size_mset)
    then show ?thesis
      by (simp add: length_discovered auditWebsite_aggregate aggregate_fields)
  qed
  from pf ms iff d2 len show ?thesis by blast
qed

section \<open>What a match consumes\<close>

lemma star_consumes:
  "star cs k p s caps = Some x \<Longrightarrow> \<exists>p' s'. k (p', s', caps) = Some x \<and> length s' \<le> length s"
proof (induction s arbitrary: p)
  case Nil
  then show ?case by auto
next
  case (Cons c s)
  show ?case
  proof (cases "in_cset cs c \<and> star cs k (Some c) s caps \<noteq> None")
    case True
    with Cons.prems have "star cs k (Some c) s caps = Some x" by auto
    from Cons.IH [OF this] obtain p' s' where
      "k (p', s', caps) = Some x" "length s' \<le> length s" by blast
    then have "k (p', s', caps) = Some x \<and> length s' \<le> length (c # s)" by simp
    then show ?thesis by blast
  next
    case False
    with Cons.prems have "k (p, c # s, caps) = Some x" by (auto split: if_splits option.splits)
    then show ?thesis by blast
  qed
qed

lemma rx_consumes:
  "rx r k (p, s, caps) = Some x \<Longrightarrow>
     \<exists>p' s' caps'. k (p', s', caps') = Some x \<and> length s' \<le> length s"
proof (induction r arbitrary: k p s caps)
  case Eps
  then show ?case by auto
next
  case (Sym cs)
  show ?case
  proof (cases s)
    case Nil
    with Sym show ?thesis by simp
  next
    case (Cons c s')
    with Sym have "k (Some c, s', caps) = Some x \<and> length s' \<le> length s"
      by (auto split: if_splits)
    then show ?thesis by blast
  qed
next
  case (Star cs)
  then show ?case using star_consumes by fastforce
next
  case (Plus cs)
  show ?case
  proof (cases s)
    case Nil
    with Plus show ?thesis by simp
  next
    case (Cons c s')
    with Plus have "star cs k (Some c) s' caps = Some x" by (auto split: if_splits)
    from star_consumes [OF this] Cons show ?thesis by fastforce
  qed
next
  case (Opt cs)
  show ?case
  proof (cases s)
    case Nil
    with Opt show ?thesis by auto
  next
    case (Cons c s')
    with Opt have "k (Some c, s', caps) = Some x \<or> k (p, s, caps) = Some x"
      by (auto split: if_splits option.splits)
    with Cons show ?thesis by fastforce
  qed
next
  case (Cat a b)
  from Cat.prems have "rx a (rx b k) (p, s, caps) = Some x" by simp
  from Cat.IH(1) [OF this] obtain p1 s1 c1 where
    1: "rx b k (p1, s1, c1) = Some x" "length s1 \<le> length s" by blast
  from Cat.IH(2) [OF 1(1)] 1(2) show ?case by (meson le_trans)
next
  case (Alt a b)
  then show ?case by (auto split: option.splits)
next
  case (Grp a)
  from Grp.prems have
    "rx a (\<lambda>(p', s', caps'). k (p', s', caps' @ [take (length s - length s') s])) (p, s, caps) = Some x"
    by simp
  from Grp.IH [OF this] show ?case by auto
next
  case WordB
  then show ?case by (auto simp: Let_def split: if_splits)
qed

lemma match_here_consumes:
  "match_here r p s = Some (s', caps) \<Longrightarrow> length s' \<le> length s"
  unfolding match_here_def by (drule rx_consumes) auto





section \<open>The size of a document after a replacement\<close>

















section \<open>Evaluation\<close>

lemma canon_code [code]:
  "canon (Char b0 b1 b2 b3 b4 b5 b6 b7) =
     (if \<not> b7 \<and> b6 \<and> b5 \<and> (b0 \<or> b1 \<or> b2 \<or> b3 \<or> b4) \<and> \<not> (b4 \<and> b3 \<and> (b2 \<or> (b1 \<and> b0)))
      then Char b0 b1 b2 b3 b4 False b6 b7 else Char b0 b1 b2 b3 b4 b5 b6 b7)"
  by (cases b0; cases b1; cases b2; cases b3; cases b4; cases b5; cases b6; cases b7)
     (simp_all add: canon_def)

text \<open>
  C1. The claim is that the queue is sorted with critical first. The comparator reads
  \<open>priorityOrder[p] || 3\<close>, and the rank 0 of critical is falsy, so critical sorts as 3,
  with low. For the page below, fetched over https with a robots.txt and no sitemap, the
  queue holds every high fix, then every medium fix, and the critical fixes last.
\<close>

theorem audit_queue_puts_critical_fixes_last:
  \<open>map (\<lambda>f. (pf_check_id f, pf_priority f))
     (priority_fixes (auditWebsite engine Map.empty ''2026-01-01T00:00:00.000Z'' ''https://example.com''
        ''<html lang="en"><head><title>Hi</title></head><body><h1>Hi</h1></body></html>''
        Map.empty (Some ''User-agent: *'') None))
   = [(''1_07_meta_robots'', ''high''), (''1_14_charset'', ''high''),
      (''2_04_heading_hierarchy'', ''high''),
      (''3_01_organization_schema'', ''high''), (''3_02_local_business_schema'', ''high''),
      (''3_03_breadcrumb_schema'', ''high''), (''3_04_faq_schema'', ''high''),
      (''3_05_article_schema'', ''high''), (''3_10_speakable_schema'', ''high''),
      (''4_01_og_type'', ''high''), (''4_02_og_title'', ''high''),
      (''4_03_og_description'', ''high''), (''4_04_og_image'', ''high''),
      (''4_05_og_url'', ''high''), (''4_08_twitter_card'', ''high''),
      (''7_07_preload_lcp'', ''high''), (''7_09_defer_js'', ''high''),
      (''8_01_hsts'', ''high''), (''8_02_x_content_type'', ''high''),
      (''8_03_x_frame_options'', ''high''), (''8_04_xss_protection'', ''high''),
      (''8_05_referrer_policy'', ''high''), (''8_07_csp'', ''high''),
      (''11_04_phone_clickable'', ''high''), (''11_03_contact_form'', ''high''),
      (''15_01_aria_labels'', ''high''), (''16_02_terms_of_service'', ''high''),
      (''2_20_favicon'', ''medium''), (''7_08_preconnect'', ''medium''),
      (''7_11_font_optimization'', ''medium''), (''11_05_whatsapp_button'', ''medium''),
      (''11_09_cookie_consent'', ''medium''), (''15_06_semantic_html'', ''medium''),
      (''16_04_copyright_notice'', ''medium''),
      (''1_04_sitemap_xml'', ''critical''), (''1_06_canonical_tags'', ''critical''),
      (''1_13_viewport_meta'', ''critical''), (''2_01_title_tag'', ''critical''),
      (''2_02_meta_description'', ''critical''), (''7_01_gzip_compression'', ''critical''),
      (''11_01_cta_visibility'', ''critical''), (''16_01_privacy_policy'', ''critical'')]\<close>
  by code_simp

text \<open>
  C2. The claim is that a second run with the same issues changes nothing and logs
  nothing. On a document without the anchor \<open><head>\<close> the title route replaces nothing
  and still logs its change, on the first run and on every later one.
\<close>

theorem fixSeoIssues_logs_a_title_on_every_run:
  \<open>fst (fixSeoIssues E [''/site/index.html'' \<mapsto> ''<html><body><h1>Shop</h1></body></html>'']
      ''/site/index.html'' [\<lparr>check_id = ''2_01_title_tag'', fix_instruction = ''Shop''\<rparr>] None None)
     = Inr \<lparr>original_size = 39, fixed_size = 39, changes = [''Added title tag: "Shop"'']\<rparr>
   \<and> snd (fixSeoIssues E [''/site/index.html'' \<mapsto> ''<html><body><h1>Shop</h1></body></html>'']
      ''/site/index.html'' [\<lparr>check_id = ''2_01_title_tag'', fix_instruction = ''Shop''\<rparr>] None None)
      ''/site/index.html'' = Some ''<html><body><h1>Shop</h1></body></html>''
   \<and> fst (fixSeoIssues E
        (snd (fixSeoIssues E [''/site/index.html'' \<mapsto> ''<html><body><h1>Shop</h1></body></html>'']
           ''/site/index.html'' [\<lparr>check_id = ''2_01_title_tag'', fix_instruction = ''Shop''\<rparr>] None None))
      ''/site/index.html'' [\<lparr>check_id = ''2_01_title_tag'', fix_instruction = ''Shop''\<rparr>] None None)
     = Inr \<lparr>original_size = 39, fixed_size = 39, changes = [''Added title tag: "Shop"'']\<rparr>\<close>
  by code_simp

text \<open>
  The text is not stable either when the inserted value begins with a quotation mark:
  the precondition then reads an empty description and the route inserts again.
\<close>

lemma fixSeoIssues_inserts_a_description_on_every_run:
  \<open>snd (fixSeoIssues E [''/p'' \<mapsto> ''<head><title>t</title></head>''] ''/p''
      [\<lparr>check_id = ''2_02_meta_description'', fix_instruction = ''"Best" pizza''\<rparr>] None None) ''/p''
     = Some ''<head><title>t</title>\<newline>    <meta name="description" content=""Best" pizza"></head>''
   \<and> snd (fixSeoIssues E
        (snd (fixSeoIssues E [''/p'' \<mapsto> ''<head><title>t</title></head>''] ''/p''
          [\<lparr>check_id = ''2_02_meta_description'', fix_instruction = ''"Best" pizza''\<rparr>] None None))
        ''/p'' [\<lparr>check_id = ''2_02_meta_description'', fix_instruction = ''"Best" pizza''\<rparr>] None None) ''/p''
     = Some ''<head><title>t</title>\<newline>    <meta name="description" content=""Best" pizza">\<newline>    <meta name="description" content=""Best" pizza"></head>''\<close>
  by code_simp

text \<open>
  C6. The claim is that on a document without a title marker the title route inserts
  exactly one title tag and logs one entry. When the head tag carries an attribute the
  anchor \<open><head>\<close> does not occur: the document stays as it was, without a title, and
  the log still holds the entry.
\<close>

theorem fixSeoIssues_logs_a_title_it_did_not_insert:
  \<open>fst (fixSeoIssues E [''/site/index.html'' \<mapsto> ''<html><head lang="en"></head><body></body></html>'']
      ''/site/index.html'' [\<lparr>check_id = ''2_01_title_tag'', fix_instruction = ''My Site''\<rparr>] None None)
     = Inr \<lparr>original_size = 49, fixed_size = 49, changes = [''Added title tag: "My Site"'']\<rparr>
   \<and> snd (fixSeoIssues E [''/site/index.html'' \<mapsto> ''<html><head lang="en"></head><body></body></html>'']
      ''/site/index.html'' [\<lparr>check_id = ''2_01_title_tag'', fix_instruction = ''My Site''\<rparr>] None None)
      ''/site/index.html'' = Some ''<html><head lang="en"></head><body></body></html>''
   \<and> \<not> str_includes ''<html><head lang="en"></head><body></body></html>'' ''<title>''\<close>
  by code_simp

text \<open>
  C7. The claim is that the missing file is the only failure. The Open Graph route
  splices the text before the first colon of the instruction into a pattern source
  without escaping it. With an opening parenthesis in it the first source has an
  unterminated group, which \<open>RegExp\<close> rejects: for every engine that rejects this source
  the call ends in a SyntaxError on an existing file, which it leaves as it was.
\<close>

theorem fixSeoIssues_throws_on_a_metacharacter_in_the_property_name:
  assumes \<open>files filePath = Some content\<close>
    and \<open>E (''<meta'' @ [backslash] @ ''s[^>]*name=["']og(["'][^>]*content=["']([^"']*)["']'') = None\<close>
  shows \<open>fixSeoIssues E files filePath
      [\<lparr>check_id = ''4_02_og_title'', fix_instruction = ''og(:Home''\<rparr>] domain businessName
    = (Inl (RegExpSyntaxError
        (''<meta'' @ [backslash] @ ''s[^>]*name=["']og(["'][^>]*content=["']([^"']*)["']'')), files)\<close>
proof -
  have np: "\<not> plain_name ''og(''"
    by (simp add: plain_name_def syntax_characters_def)
  have c: "compile_all E (meta_sources ''og('') = Inl (RegExpSyntaxError
        (''<meta'' @ [backslash] @ ''s[^>]*name=['' @ [dq, sq] @ '']og(['' @ [dq, sq] @ ''][^>]*content=['' @ [dq, sq] @ '']([^'' @ [dq, sq] @ '']*)['' @ [dq, sq] @ '']''))"
    using assms(2) by (simp add: meta_sources_def dq_def sq_def)
  show ?thesis
    using assms(1) np c
    by (simp add: fixSeoIssues_def fix_issue_def fix_title_def fix_description_def
        fix_canonical_def fix_robots_def fix_viewport_def fix_charset_def fix_og_def
        extractMeta_spliced_def startsWith_def dq_def sq_def)
qed

theorem fixSeoIssues_throws_on_a_metacharacter_in_the_property_name_witness:
  \<open>[''/site/index.html'' \<mapsto> ''<html><head></head></html>''] ''/site/index.html''
      = Some ''<html><head></head></html>''
   \<and> (\<lambda>src. None :: (string \<Rightarrow> match_outcome) option)
        (''<meta'' @ [backslash] @ ''s[^>]*name=["']og(["'][^>]*content=["']([^"']*)["']'') = None
   \<and> fst (fixSeoIssues (\<lambda>src. None) [''/site/index.html'' \<mapsto> ''<html><head></head></html>'']
        ''/site/index.html'' [\<lparr>check_id = ''4_02_og_title'', fix_instruction = ''og(:Home''\<rparr>] None None)
     = Inl (RegExpSyntaxError
        (''<meta'' @ [backslash] @ ''s[^>]*name=["']og(["'][^>]*content=["']([^"']*)["']''))\<close>
proof -
  have 1: \<open>[''/site/index.html'' \<mapsto> ''<html><head></head></html>''] ''/site/index.html''
      = Some ''<html><head></head></html>''\<close> by simp
  have 2: \<open>(\<lambda>src. None :: (string \<Rightarrow> match_outcome) option)
        (''<meta'' @ [backslash] @ ''s[^>]*name=["']og(["'][^>]*content=["']([^"']*)["']'') = None\<close>
    by simp
  from fixSeoIssues_throws_on_a_metacharacter_in_the_property_name
    [where files = "[''/site/index.html'' \<mapsto> ''<html><head></head></html>'']"
       and filePath = "''/site/index.html''" and content = "''<html><head></head></html>''"
       and E = "\<lambda>src. None" and domain = None and businessName = None, OF 1 2] 1 2
  show ?thesis by simp
qed

section \<open>What a replacement puts in place of the anchor\<close>




















section \<open>Rounding to a double\<close>

lemma pow2_powi: "pow2 e = 2 powi e"
  by (simp add: pow2_def power_int_def inverse_eq_divide power_one_over)

lemma pow2_pos: "0 < pow2 e"
  by (simp add: pow2_powi)

lemma pow2_add: "pow2 (a + b) = pow2 a * pow2 b"
  by (simp add: pow2_powi power_int_add)

lemma pow2_diff: "pow2 (a - b) = pow2 a / pow2 b"
  by (simp add: pow2_powi power_int_diff)

lemma pow2_nat: "0 \<le> e \<Longrightarrow> pow2 e = 2 ^ nat e"
  by (simp add: pow2_def)

lemma nbits_bounds:
  "0 < n \<Longrightarrow> 1 \<le> nbits n \<and> 2 ^ nat (nbits n - 1) \<le> n \<and> n < 2 ^ nat (nbits n)"
proof (induction n rule: nbits.induct)
  case (1 n)
  show ?case
  proof (cases "n = 1")
    case True
    have "nbits 1 = 1" by (simp add: nbits.simps [of 1] nbits.simps [of 0])
    with True show ?thesis by simp
  next
    case False
    with "1.prems" have h: "0 < n div 2" by simp
    from "1.prems" have nle: "\<not> n \<le> 0" by simp
    from "1.IH" [OF nle h] have ih: "1 \<le> nbits (n div 2)"
      "2 ^ nat (nbits (n div 2) - 1) \<le> n div 2" "n div 2 < 2 ^ nat (nbits (n div 2))" by auto
    have eq: "nbits n = 1 + nbits (n div 2)" using nle by (simp add: nbits.simps [of n])
    have e1: "nat (nbits n - 1) = Suc (nat (nbits (n div 2) - 1))" using ih(1) eq by simp
    have e2: "nat (nbits n) = Suc (nat (nbits (n div 2)))" using ih(1) eq by simp
    have "2 * 2 ^ nat (nbits (n div 2) - 1) \<le> 2 * (n div 2)" using ih(2) by simp
    also have "\<dots> \<le> n" by simp
    finally have lo: "2 ^ nat (nbits n - 1) \<le> n" unfolding e1 by simp
    have "n < 2 * (n div 2) + 2" by presburger
    also have "\<dots> \<le> 2 * 2 ^ nat (nbits (n div 2))" using ih(3) by simp
    finally have hi: "n < 2 ^ nat (nbits n)" unfolding e2 by simp
    from lo hi eq ih(1) show ?thesis by simp
  qed
qed

lemma nbits_pow2:
  assumes "0 < n"
  shows "pow2 (nbits n - 1) \<le> of_int n" and "of_int n < pow2 (nbits n)"
proof -
  from nbits_bounds [OF assms] have b: "1 \<le> nbits n" "2 ^ nat (nbits n - 1) \<le> n"
    "n < 2 ^ nat (nbits n)" by auto
  have "(of_int (2 ^ nat (nbits n - 1)) :: rat) \<le> of_int n" using b(2) by (simp only: of_int_le_iff)
  then show "pow2 (nbits n - 1) \<le> of_int n" using b(1) by (simp add: pow2_nat)
  have "(of_int n :: rat) < of_int (2 ^ nat (nbits n))" using b(3) by (simp only: of_int_less_iff)
  then show "of_int n < pow2 (nbits n)" using b(1) by (simp add: pow2_nat)
qed

lemma ilog2_bounds:
  assumes "0 < x"
  shows "pow2 (ilog2 x) \<le> x" and "x < pow2 (ilog2 x + 1)"
proof -
  obtain n d where q: "quotient_of x = (n, d)" by (cases "quotient_of x")
  then have d: "0 < d" and x: "x = of_int n / of_int d"
    by (simp_all add: quotient_of_denom_pos quotient_of_div)
  from assms x d have n: "0 < n" by (simp add: zero_less_divide_iff)
  let ?e0 = "nbits n - nbits d"
  have up: "x < pow2 (?e0 + 1)"
  proof -
    have "x < pow2 (nbits n) / of_int d"
      unfolding x using nbits_pow2(2) [OF n] d by (simp add: divide_strict_right_mono)
    also have "\<dots> \<le> pow2 (nbits n) / pow2 (nbits d - 1)"
      using nbits_pow2(1) [OF d] pow2_pos [of "nbits n"] pow2_pos [of "nbits d - 1"]
      by (simp add: frac_le)
    also have "\<dots> = pow2 (?e0 + 1)" by (simp add: pow2_diff [symmetric] algebra_simps)
    finally show ?thesis .
  qed
  have lo: "pow2 (?e0 - 1) \<le> x"
  proof -
    have "pow2 (?e0 - 1) = pow2 (nbits n - 1) / pow2 (nbits d)"
      by (simp add: pow2_diff [symmetric] algebra_simps)
    also have "\<dots> \<le> of_int n / pow2 (nbits d)"
      using nbits_pow2(1) [OF n] pow2_pos [of "nbits d"] by (simp add: divide_right_mono)
    also have "\<dots> \<le> of_int n / of_int d"
      using nbits_pow2(2) [OF d] n d by (simp add: frac_le)
    finally show ?thesis unfolding x .
  qed
  have e: "ilog2 x = (if pow2 ?e0 \<le> x then ?e0 else ?e0 - 1)"
    by (simp add: ilog2_def q Let_def)
  show "pow2 (ilog2 x) \<le> x" using lo by (simp add: e)
  show "x < pow2 (ilog2 x + 1)" using up by (auto simp: e not_le)
qed

lemma round_half_even_error: "\<bar>of_int (round_half_even z) - z\<bar> \<le> 1 / 2"
proof -
  have "of_int \<lfloor>z\<rfloor> \<le> z" "z < of_int \<lfloor>z\<rfloor> + 1" by linarith+
  then show ?thesis by (auto simp: round_half_even_def Let_def)
qed

lemma to_double_error:
  assumes "0 < x"
  shows "\<bar>to_double x - x\<bar> \<le> x / 2 ^ 53"
proof -
  let ?u = "pow2 (ilog2 x - 52)"
  have u: "0 < ?u" by (rule pow2_pos)
  have td: "to_double x = of_int (round_half_even (x / ?u)) * ?u"
    using assms by (simp add: to_double_def Let_def)
  have "to_double x - x = (of_int (round_half_even (x / ?u)) - x / ?u) * ?u"
    using u by (simp add: td field_simps)
  then have "\<bar>to_double x - x\<bar> = \<bar>of_int (round_half_even (x / ?u)) - x / ?u\<bar> * ?u"
    using u by (simp add: abs_mult)
  also have "\<dots> \<le> 1 / 2 * ?u"
    using round_half_even_error [of "x / ?u"] u by (simp add: mult_right_mono)
  also have "\<dots> = pow2 (ilog2 x) / 2 ^ 53"
  proof -
    have "?u = pow2 (ilog2 x) / pow2 52" by (rule pow2_diff)
    then show ?thesis by (simp add: pow2_def)
  qed
  also have "\<dots> \<le> x / 2 ^ 53"
    using ilog2_bounds(1) [OF assms] by (simp add: divide_right_mono)
  finally show ?thesis .
qed

lemma to_double_zero: "to_double 0 = 0"
  by (simp add: to_double_def)

section \<open>The score of an audit\<close>

lemma double_score_error:
  assumes "0 \<le> q" and "q \<le> 1"
  shows "\<bar>to_double (to_double q * 100) - q * 100\<bar> \<le> 1 / 1000"
proof (cases "q = 0")
  case True
  then show ?thesis by (simp add: to_double_zero)
next
  case False
  with assms have q: "0 < q" by simp
  define d :: rat where "d = 1 / 2 ^ 53"
  define q' where "q' = to_double q"
  define z where "z = q' * 100"
  define y where "y = to_double z"
  have d: "0 < d" "d \<le> 1 / 1000000" by (simp_all add: d_def)
  have "\<bar>q' - q\<bar> \<le> q * d" unfolding q'_def d_def using to_double_error [OF q] by simp
  moreover have "q * d \<le> d" using assms(2) d(1) by (simp add: mult_le_cancel_right1)
  ultimately have e1: "\<bar>q' - q\<bar> \<le> d" by linarith
  have "q * d < q" using q d by (simp add: d_def)
  with \<open>\<bar>q' - q\<bar> \<le> q * d\<close> have "0 < q'" by linarith
  then have z: "0 < z" by (simp add: z_def)
  have z2: "z \<le> 200" using e1 assms(2) d unfolding z_def by linarith
  have "\<bar>y - z\<bar> \<le> z * d" unfolding y_def d_def using to_double_error [OF z] by simp
  moreover have "z * d \<le> 200 * d" using z2 d(1) by (simp add: mult_right_mono)
  ultimately have e2: "\<bar>y - z\<bar> \<le> 200 * d" by linarith
  from e1 e2 d have "\<bar>y - q * 100\<bar> \<le> 1 / 1000" unfolding z_def by linarith
  then show ?thesis by (simp only: y_def z_def q'_def)
qed

lemma scorePercentage_range:
  assumes "int p \<le> a"
  shows "0 \<le> scorePercentage p a \<and> scorePercentage p a \<le> 100"
proof (cases "0 < a")
  case False
  then show ?thesis by (simp add: scorePercentage_def)
next
  case True
  define q :: rat where "q = of_nat p / of_int a"
  define y where "y = to_double (to_double q * 100)"
  have q0: "0 \<le> q" using True by (simp add: q_def)
  have q1: "q \<le> 1" using True assms by (simp add: q_def divide_le_eq_1)
  from double_score_error [OF q0 q1] have e: "\<bar>y - q * 100\<bar> \<le> 1 / 1000"
    by (simp only: y_def)
  from e q0 q1 have b: "0 \<le> y + 1 / 2" "y + 1 / 2 < 101" by linarith+
  from b(1) have "0 \<le> \<lfloor>y + 1 / 2\<rfloor>" by simp
  moreover from b(2) have "\<lfloor>y + 1 / 2\<rfloor> \<le> 100" by (simp add: floor_le_iff)
  ultimately show ?thesis using True
    by (simp add: scorePercentage_def Math_round_def y_def q_def)
qed

lemma scorePercentage_exact_without_tie:
  assumes "0 < a" and "a \<le> 50" and "int p \<le> a" and "(200 * int p + a) mod (2 * a) \<noteq> 0"
  shows "scorePercentage p a = \<lfloor>of_nat p / of_int a * 100 + 1 / 2 :: rat\<rfloor>"
proof -
  define q :: rat where "q = of_nat p / of_int a"
  define y where "y = to_double (to_double q * 100)"
  define n where "n = 200 * int p + a"
  define k where "k = n div (2 * a)"
  define m where "m = n mod (2 * a)"
  define fr :: rat where "fr = of_int m / of_int (2 * a)"
  have q0: "0 \<le> q" using assms(1) by (simp add: q_def)
  have q1: "q \<le> 1" using assms(1,3) by (simp add: q_def divide_le_eq_1)
  from double_score_error [OF q0 q1] have e: "\<bar>y - q * 100\<bar> \<le> 1 / 1000"
    by (simp only: y_def)
  have a0: "(of_int a :: rat) \<noteq> 0" using assms(1) by simp
  have t: "q * 100 + 1 / 2 = of_int n / of_int (2 * a)"
    using a0 by (simp add: q_def n_def field_simps)
  have m: "1 \<le> m" "m \<le> 2 * a - 1"
    using assms(1,4) pos_mod_sign [of "2 * a" n] pos_mod_bound [of "2 * a" n]
    unfolding m_def n_def by linarith+
  have n: "n = k * (2 * a) + m" unfolding k_def m_def by (rule div_mult_mod_eq [symmetric])
  have "of_int n / of_int (2 * a) = (of_int k :: rat) + fr"
  proof -
    have "(of_int n :: rat) = of_int k * of_int (2 * a) + of_int m"
      by (metis n of_int_add of_int_mult)
    then show ?thesis using a0 by (simp add: fr_def field_simps)
  qed
  with t have t': "q * 100 + 1 / 2 = of_int k + fr" by simp
  have a2: "(0 :: rat) < of_int (2 * a)" using assms(1) by simp
  have a100: "(of_int (2 * a) :: rat) \<le> 100"
  proof -
    have "2 * a \<le> 100" using assms(2) by simp
    then have "(of_int (2 * a) :: rat) \<le> of_int 100" by (simp only: of_int_le_iff)
    then show ?thesis by simp
  qed
  have one: "(1 :: rat) / 100 \<le> 1 / of_int (2 * a)"
    using a2 a100 by (simp add: frac_le)
  have lo: "(1 :: rat) / 100 \<le> fr"
  proof -
    have "(1 :: rat) \<le> of_int m" using m(1) by simp
    then have "(1 :: rat) / of_int (2 * a) \<le> fr"
      unfolding fr_def using a2 by (simp only: divide_right_mono less_imp_le)
    with one show ?thesis by linarith
  qed
  have hi: "fr \<le> (1 :: rat) - 1 / 100"
  proof -
    have "(of_int m :: rat) \<le> of_int (2 * a - 1)" using m(2) by (simp only: of_int_le_iff)
    then have "fr \<le> (of_int (2 * a - 1) :: rat) / of_int (2 * a)"
      unfolding fr_def using a2 by (simp only: divide_right_mono less_imp_le)
    also have "\<dots> = 1 - 1 / of_int (2 * a)" using a0 by (simp add: field_simps)
    finally show ?thesis using one by linarith
  qed
  from e t' lo hi have "of_int k \<le> y + 1 / 2" "y + 1 / 2 < of_int k + 1" by linarith+
  then have "\<lfloor>y + 1 / 2\<rfloor> = k" by (rule floor_unique)
  moreover from t' lo hi have "of_int k \<le> q * 100 + 1 / 2" "q * 100 + 1 / 2 < of_int k + 1"
    by linarith+
  then have "\<lfloor>q * 100 + 1 / 2\<rfloor> = k" by (rule floor_unique)
  ultimately show ?thesis using assms(1)
    by (simp add: scorePercentage_def Math_round_def y_def q_def)
qed

lemma scorePercentage_ties_48:
  "scorePercentage 6 48 = 13" "scorePercentage 18 48 = 38"
  "scorePercentage 30 48 = 63" "scorePercentage 42 48 = 88"
  by code_simp+

lemma no_tie_mod4:
  fixes P a :: int
  assumes "4 dvd 2 * a" and "a mod 4 = 2"
  shows "(200 * P + a) mod (2 * a) \<noteq> 0"
proof
  assume "(200 * P + a) mod (2 * a) = 0"
  then have "2 * a dvd 200 * P + a" by (simp add: dvd_eq_mod_eq_0)
  with assms(1) have "4 dvd 200 * P + a" by (rule dvd_trans)
  with assms(2) show False by presburger
qed

lemma no_tie_odd:
  fixes P a :: int
  assumes "odd a"
  shows "(200 * P + a) mod (2 * a) \<noteq> 0"
proof
  assume "(200 * P + a) mod (2 * a) = 0"
  then have "2 * a dvd 200 * P + a" by (simp add: dvd_eq_mod_eq_0)
  then have "2 dvd 200 * P + a" by (rule dvd_mult_left)
  with assms show False by simp
qed

lemma tie_48:
  fixes p :: nat
  assumes "(200 * int p + 48) mod 96 = 0" and "p < 49"
  shows "p = 6 \<or> p = 18 \<or> p = 30 \<or> p = 42"
proof -
  have "\<forall>p \<in> set [0..<49]. (200 * int p + 48) mod 96 = 0
      \<longrightarrow> p = 6 \<or> p = 18 \<or> p = 30 \<or> p = 42"
    by code_simp
  with assms show ?thesis by simp
qed

lemma scorePercentage_exact_for_an_audit:
  assumes "46 \<le> a" and "a \<le> 50" and "int p \<le> a"
  shows "scorePercentage p a = \<lfloor>of_nat p / of_int a * 100 + 1 / 2 :: rat\<rfloor>"
proof (cases "(200 * int p + a) mod (2 * a) = 0")
  case False
  with assms show ?thesis by (intro scorePercentage_exact_without_tie) simp_all
next
  case True
  from assms(1,2) consider "a = 46" | "a = 47" | "a = 48" | "a = 49" | "a = 50" by linarith
  then have "a = 48 \<and> (p = 6 \<or> p = 18 \<or> p = 30 \<or> p = 42)"
  proof cases
    case 1 with True no_tie_mod4 [of 46 "int p"] show ?thesis by simp
  next
    case 2 with True no_tie_odd [of 47 "int p"] show ?thesis by simp
  next
    case 3 with True assms(3) tie_48 [of p] show ?thesis by simp
  next
    case 4 with True no_tie_odd [of 49 "int p"] show ?thesis by simp
  next
    case 5 with True no_tie_mod4 [of 50 "int p"] show ?thesis by simp
  qed
  then show ?thesis by (auto simp: scorePercentage_ties_48)
qed

lemma status_count_append:
  "status_count st (xs @ ys) = status_count st xs + status_count st ys"
  by (simp add: status_count_def)

lemma na_technical: "status_count NotApplicable (auditTechnicalSeo S html headers u robotsTxt sitemapXml) = 0"
  by (simp add: auditTechnicalSeo_def item_def Let_def status_count_def found_def)

lemma na_on_page: "status_count NotApplicable (auditOnPageSeo S html) \<le> 3"
  by (simp add: auditOnPageSeo_def item_def Let_def status_count_def found_def)

lemma na_schema: "status_count NotApplicable (auditSchema S html) = 0"
  by (simp add: auditSchema_def item_def Let_def status_count_def found_def)

lemma na_og: "status_count NotApplicable (auditOgTags S html) = 0"
  by (simp add: auditOgTags_def item_def Let_def status_count_def found_def)

lemma na_performance: "status_count NotApplicable (auditPerformance S html headers) = 0"
  by (simp add: auditPerformance_def item_def Let_def status_count_def found_def)

lemma na_security: "status_count NotApplicable (auditSecurity S headers) = 0"
  by (simp add: auditSecurity_def item_def Let_def status_count_def found_def)

lemma na_ux: "status_count NotApplicable (auditUxCro S html) = 0"
  by (simp add: auditUxCro_def item_def Let_def status_count_def found_def)

lemma na_accessibility: "status_count NotApplicable (auditAccessibility S html) \<le> 1"
  by (simp add: auditAccessibility_def item_def Let_def status_count_def found_def)

lemma na_legal: "status_count NotApplicable (auditLegal S html u) = 0"
  by (simp add: auditLegal_def item_def Let_def status_count_def found_def)

lemma na_all:
  "status_count NotApplicable (all_items (allChecks S u html headers robotsTxt sitemapXml)) \<le> 4"
  using na_on_page [of S html] na_accessibility [of S html]
  by (simp add: all_items_def allChecks_def status_count_append na_technical na_schema na_og
      na_performance na_security na_ux na_legal)


lemma scorePercentage_zero_denominator: "scorePercentage p 0 = 0"
  by (simp add: scorePercentage_def)

lemma scorePercentage_double_rounding: "scorePercentage 23 40 = 57"
  by code_simp

text \<open>
  C4. In every result of auditWebsite the denominator total_checks - not_applicable is
  positive (fifty checks are evaluated and at most four of them can be inapplicable),
  and score_percentage is passed / (total_checks - not_applicable) * 100, computed over
  the rationals and rounded to the nearest integer, a half upwards; it lies between 0
  and 100.
\<close>

theorem audit_score_is_the_rounded_share_of_passed_checks:
  "0 < int (total_checks (auditWebsite engine S ts u html headers robotsTxt sitemapXml))
        - int (not_applicable (auditWebsite engine S ts u html headers robotsTxt sitemapXml))
   \<and> score_percentage (auditWebsite engine S ts u html headers robotsTxt sitemapXml)
     = \<lfloor>of_nat (passed (auditWebsite engine S ts u html headers robotsTxt sitemapXml))
        / of_int (int (total_checks (auditWebsite engine S ts u html headers robotsTxt sitemapXml))
            - int (not_applicable (auditWebsite engine S ts u html headers robotsTxt sitemapXml)))
        * 100 + 1 / 2 :: rat\<rfloor>
   \<and> 0 \<le> score_percentage (auditWebsite engine S ts u html headers robotsTxt sitemapXml)
   \<and> score_percentage (auditWebsite engine S ts u html headers robotsTxt sitemapXml) \<le> 100"
proof -
  define cs where "cs = all_items (allChecks S (normalize_url u) html headers robotsTxt sitemapXml)"
  define p where "p = status_count Done cs"
  define a where "a = int (length cs) - int (status_count NotApplicable cs)"
  have len: "length cs = 50" unfolding cs_def by (rule length_all)
  have na: "status_count NotApplicable cs \<le> 4" unfolding cs_def by (rule na_all)
  have part: "length cs = status_count Done cs + status_count Missing cs + status_count Partial cs
     + status_count NotApplicable cs" by (rule status_count_partition)
  have a: "46 \<le> a" "a \<le> 50" using len na by (simp_all add: a_def)
  have pa: "int p \<le> a" using part by (simp add: a_def p_def)
  have R: "total_checks (auditWebsite engine S ts u html headers robotsTxt sitemapXml) = length cs"
    "not_applicable (auditWebsite engine S ts u html headers robotsTxt sitemapXml)
       = status_count NotApplicable cs"
    "passed (auditWebsite engine S ts u html headers robotsTxt sitemapXml) = p"
    "score_percentage (auditWebsite engine S ts u html headers robotsTxt sitemapXml)
       = scorePercentage p a"
    by (simp_all add: auditWebsite_aggregate aggregate_fields cs_def p_def a_def)
  have 1: "scorePercentage p a = \<lfloor>of_nat p / of_int a * 100 + 1 / 2 :: rat\<rfloor>"
    using a pa by (rule scorePercentage_exact_for_an_audit)
  have 2: "0 \<le> scorePercentage p a \<and> scorePercentage p a \<le> 100"
    using pa by (rule scorePercentage_range)
  have 3: "0 < a" using a by simp
  show ?thesis unfolding R using 1 2 3 unfolding a_def by simp
qed

end
